theory Spec2Isabelle
  imports Complex_Main "HOL-Library.Char_ord" "HOL-Library.List_Lexorder"
begin

section \<open>Python values and builtins used by the orchestration layer\<close>

text \<open>
  Exceptions are values: a function that may raise returns \<open>py_error + 'a\<close>, with
  \<open>Inl\<close> the exception. \<open>SystemExit\<close> is what \<^verbatim>\<open>sys.exit()\<close> raises.
\<close>

datatype py_error =
  ValueError | TypeError | IndexError | KeyError | FileNotFoundError | UnpicklingError | SystemExit

definition is_space :: "char \<Rightarrow> bool" where
  "is_space c \<longleftrightarrow> c \<in> set [CHR '' '', CHR 0x09, CHR 0x0A, CHR 0x0B, CHR 0x0C, CHR 0x0D]"

definition digit_val :: "char \<Rightarrow> nat option" where
  "digit_val c = map_of (zip ''0123456789'' [0 ..< 10]) c"

text \<open>
  The digits of a decimal literal, as \<^verbatim>\<open>int()\<close> reads them: a single underscore is
  allowed between two digits.
\<close>

fun py_digits :: "nat \<Rightarrow> string \<Rightarrow> nat option" where
  "py_digits acc [] = Some acc"
| "py_digits acc (c # cs) =
     (case digit_val c of
        Some d \<Rightarrow> py_digits (10 * acc + d) cs
      | None \<Rightarrow>
          (if c = CHR ''_'' \<and> (case cs of [] \<Rightarrow> False | c' # _ \<Rightarrow> digit_val c' \<noteq> None)
           then py_digits acc cs else None))"

definition py_nat_literal :: "string \<Rightarrow> nat option" where
  "py_nat_literal s =
     (case s of [] \<Rightarrow> None
      | c # _ \<Rightarrow> (if digit_val c = None then None else py_digits 0 s))"

definition strip :: "string \<Rightarrow> string" where
  "strip s = rev (dropWhile is_space (rev (dropWhile is_space s)))"

text \<open>
  \<^verbatim>\<open>int(s)\<close> on an ASCII string: surrounding whitespace, an optional sign, a decimal
  literal. \<open>None\<close> stands for the \<^verbatim>\<open>ValueError\<close> the builtin raises.
\<close>

definition py_int :: "string \<Rightarrow> int option" where
  "py_int s =
     (case strip s of
        [] \<Rightarrow> None
      | c # cs \<Rightarrow>
          (if c = CHR ''-'' then map_option (\<lambda>n. - int n) (py_nat_literal cs)
           else if c = CHR ''+'' then map_option int (py_nat_literal cs)
           else map_option int (py_nat_literal (c # cs))))"

text \<open>\<^verbatim>\<open>str(n)\<close> for an integer, and \<^verbatim>\<open>f"{target_n}"\<close> for an optional one.\<close>

fun str_nat :: "nat \<Rightarrow> string" where
  "str_nat n = (if n < 10 then [''0123456789'' ! n] else str_nat (n div 10) @ [''0123456789'' ! (n mod 10)])"

declare str_nat.simps [simp del]

definition str_int :: "int \<Rightarrow> string" where
  "str_int i = (if i < 0 then CHR ''-'' # str_nat (nat (- i)) else str_nat (nat i))"

definition format_target_n :: "int option \<Rightarrow> string" where
  "format_target_n target_n = (case target_n of None \<Rightarrow> ''None'' | Some n \<Rightarrow> str_int n)"

text \<open>
  How a call binds its arguments to a signature that has neither \<^verbatim>\<open>*args\<close> nor
  \<^verbatim>\<open>**kwargs\<close>: the parameter names in order, how many of them have no default, the
  number of positional arguments and the keywords of the call.
\<close>

definition bind_arguments :: "string list \<Rightarrow> nat \<Rightarrow> nat \<Rightarrow> string list \<Rightarrow> py_error + unit" where
  "bind_arguments parameters required npos keywords =
     (if npos > length parameters then Inl TypeError
      else if \<exists>k \<in> set keywords. k \<notin> set parameters then Inl TypeError
      else if \<exists>k \<in> set keywords. k \<in> set (take npos parameters) then Inl TypeError
      else if \<exists>q \<in> set (take required parameters).
                q \<notin> set (take npos parameters) \<and> q \<notin> set keywords then Inl TypeError
      else Inr ())"

section \<open>Paths, files and the log\<close>

text \<open>
  A path is its text. \<open>joinpath\<close> is the operator \<^verbatim>\<open>/\<close> of \<^verbatim>\<open>pathlib\<close>: an
  absolute right operand replaces the left one. The project path is taken to be absolute
  and free of symbolic links, so that \<^verbatim>\<open>resolve()\<close> leaves it as it is, and the
  directories written into are taken to exist.
\<close>

type_synonym path = string

definition joinpath :: "path \<Rightarrow> string \<Rightarrow> path" where
  "joinpath p s =
     (case s of [] \<Rightarrow> p
      | c # _ \<Rightarrow> (if c = CHR ''/'' then s else p @ ''/'' @ s))"

text \<open>
  What a file holds matters for the pickles only. A volume, an array or a table is
  \<open>Data\<close>. The pickles are the pair of histograms \<^verbatim>\<open>(hx_conv, hx)\<close>, the three Monte
  Carlo null vectors of \<^verbatim>\<open>main_effect\<close>, and the cluster null of
  \<^verbatim>\<open>probabilistic_ale\<close>, a sequence of numbers.
\<close>

datatype content =
    Data
  | Histogram
  | MonteCarlo "rat list" "rat list" "rat list"
  | CfweNull "rat list"

datatype level = INFO | WARNING

text \<open>
  Calls into the analyses and utilities that other modules define are recorded, with the
  meta-analysis names they are given.
\<close>

datatype call =
    Contribution string
  | RoiAle string string
  | ProbabilisticAle string int
  | Contrast "string list"
  | BalancedContrast "string list" int

record world =
  files :: "path \<rightharpoonup> content"
  logged :: "(level \<times> string) list"
  calls :: "call list"

definition path_exists :: "world \<Rightarrow> path \<Rightarrow> bool" where
  "path_exists w p \<longleftrightarrow> files w p \<noteq> None"

definition write_file :: "path \<Rightarrow> content \<Rightarrow> world \<Rightarrow> world" where
  "write_file p c w = w\<lparr>files := (files w)(p \<mapsto> c)\<rparr>"

definition logger :: "level \<Rightarrow> string \<Rightarrow> world \<Rightarrow> world" where
  "logger l msg w = w\<lparr>logged := logged w @ [(l, msg)]\<rparr>"

definition record_call :: "call \<Rightarrow> world \<Rightarrow> world" where
  "record_call c w = w\<lparr>calls := calls w @ [c]\<rparr>"

text \<open>
  Modelled from the spec: \<^verbatim>\<open>plot_and_save\<close> is defined in
  \<^verbatim>\<open>jale.core.utils.plot_and_save\<close>; it is the volume save primitive, which writes
  the array to the named volume file.
\<close>

definition plot_and_save :: "path \<Rightarrow> world \<Rightarrow> world" where
  "plot_and_save nii_path w = write_file nii_path Data w"

text \<open>
  \<^verbatim>\<open>np.save\<close> and \<^verbatim>\<open>np.savez_compressed\<close> append their extension to a name that
  does not end with it.
\<close>

definition endswith :: "string \<Rightarrow> string \<Rightarrow> bool" where
  "endswith s suffix \<longleftrightarrow> length suffix \<le> length s \<and> drop (length s - length suffix) s = suffix"

definition np_save :: "path \<Rightarrow> world \<Rightarrow> world" where
  "np_save file w = write_file (if endswith file ''.npy'' then file else file @ ''.npy'') Data w"

definition np_savez_compressed :: "path \<Rightarrow> world \<Rightarrow> world" where
  "np_savez_compressed file w =
     write_file (if endswith file ''.npz'' then file else file @ ''.npz'') Data w"

section \<open>The collaborators of the analyses\<close>

text \<open>
  The experiment selection and the numeric engine live in other modules; they are
  parameters. \<open>compile_experiments\<close> gives the experiment labels
  and the names of the masks for a list of conditions. \<open>compute_monte_carlo_null\<close> gives
  the maxima of one simulated iteration (voxel value, cluster mass, TFCE value) for an
  experiment table, the TFCE switch, the subsample size and the number of the iteration.
  \<open>percentile\<close> is \<^verbatim>\<open>np.percentile\<close>. The float parameters \<^verbatim>\<open>bin_steps\<close> and
  \<^verbatim>\<open>cluster_forming_threshold\<close> reach the numeric engine only and stay inside it.
\<close>

record 'e collaborators =
  compile_experiments :: "string list \<Rightarrow> int list \<times> string list"
  predict_cutoff :: "'e list \<Rightarrow> rat \<times> rat \<times> rat"
  compute_monte_carlo_null :: "'e list \<Rightarrow> bool \<Rightarrow> int option \<Rightarrow> nat \<Rightarrow> rat \<times> rat \<times> rat"
  percentile :: "rat list \<Rightarrow> nat \<Rightarrow> rat"

section \<open>core/utils/input.py: the experiment table\<close>

text \<open>
  The spreadsheet as pandas holds it, column by column. A coordinate column carries its
  dtype next to its cells; a cell is a number, a missing value or a string. The index is
  the list of row labels; \<^verbatim>\<open>reset_index(drop=True)\<close> makes it \<open>0, \<dots>, n - 1\<close>.
  The columns after the coordinates (subjects, space, tags) play no part in the functions
  below and are left out.
\<close>

datatype dtype = Float64 | Int64 | Object

datatype cell = Num rat | NaN | Str string

type_synonym column = "dtype \<times> cell list"

record exp_frame =
  index_labels :: "int list"
  Articles :: "string option list"
  col_x :: column
  col_y :: column
  col_z :: column

definition reset_index :: "exp_frame \<Rightarrow> exp_frame" where
  "reset_index df = df\<lparr>index_labels := map int [0 ..< length (index_labels df)]\<rparr>"

definition is_float_dtype :: "column \<Rightarrow> bool" where
  "is_float_dtype col \<longleftrightarrow> fst col = Float64"

text \<open>
  \<^verbatim>\<open>pd.to_numeric(col, errors="coerce")\<close>: numbers stay, a string becomes the number it
  spells or a missing value. How pandas reads a string as a number is the parameter
  \<open>spell\<close>.
\<close>

definition to_numeric :: "(string \<Rightarrow> rat option) \<Rightarrow> cell \<Rightarrow> rat option" where
  "to_numeric spell c = (case c of Num r \<Rightarrow> Some r | NaN \<Rightarrow> None | Str s \<Rightarrow> spell s)"

definition non_integer_mask :: "(string \<Rightarrow> rat option) \<Rightarrow> cell \<Rightarrow> bool" where
  "non_integer_mask spell c =
     (case to_numeric spell c of None \<Rightarrow> True | Some r \<Rightarrow> r \<noteq> of_int \<lfloor>r\<rfloor>)"

text \<open>
  One line of output per coordinate column that is not of a float dtype: the column's name
  and the spreadsheet row numbers (label + 2) of the cells that are missing or not whole.
\<close>

definition report_column ::
  "(string \<Rightarrow> rat option) \<Rightarrow> int list \<Rightarrow> string \<Rightarrow> column \<Rightarrow> (string \<times> int list) list" where
  "report_column spell idx coord_col col =
     (if is_float_dtype col then []
      else [(coord_col,
             map (\<lambda>(l, c). l + 2) (filter (\<lambda>(l, c). non_integer_mask spell c) (zip idx (snd col))))])"

text \<open>
  \<^verbatim>\<open>check_coordinates_are_numbers(df)\<close>: the printed lines, and either the
  \<^verbatim>\<open>SystemExit\<close> of \<^verbatim>\<open>sys.exit()\<close> or the frame with its index reset.
\<close>

definition check_coordinates_are_numbers ::
  "(string \<Rightarrow> rat option) \<Rightarrow> exp_frame \<Rightarrow> (string \<times> int list) list \<times> (py_error + exp_frame)" where
  "check_coordinates_are_numbers spell df =
     (let printed = report_column spell (index_labels df) ''x'' (col_x df)
                  @ report_column spell (index_labels df) ''y'' (col_y df)
                  @ report_column spell (index_labels df) ''z'' (col_z df);
          all_coord_numbers_flag = (is_float_dtype (col_x df) \<and> is_float_dtype (col_y df)
                                    \<and> is_float_dtype (col_z df))
      in if \<not> all_coord_numbers_flag then (printed, Inl SystemExit)
         else (printed, Inr (reset_index df)))"

subsection \<open>Concatenating the coordinates of each article\<close>

record experiment_row =
  exp_article :: string
  Coordinates_mm :: "(cell \<times> cell \<times> cell) list"
  NumberOfFoci :: int

text \<open>
  \<^verbatim>\<open>np.array((x, y, z)).T\<close>: one row per focus. Three sequences of different lengths
  do not form an array.
\<close>

definition coordinate_array ::
  "cell list \<Rightarrow> cell list \<Rightarrow> cell list \<Rightarrow> py_error + (cell \<times> cell \<times> cell) list" where
  "coordinate_array xs ys zs =
     (if length xs = length ys \<and> length ys = length zs then Inr (zip xs (zip ys zs))
      else Inl ValueError)"

text \<open>
  Rows selected by their article, as \<^verbatim>\<open>groupby("Articles")[c].apply(list)\<close> does for
  one group, and rows selected by a label slice \<^verbatim>\<open>.loc[a : b]\<close>, which includes both
  ends (the index is increasing: it is \<open>0, \<dots>, n - 1\<close> when the table comes from
  \<^verbatim>\<open>read_experiment_info\<close>).
\<close>

definition group_cells :: "string option list \<Rightarrow> string \<Rightarrow> cell list \<Rightarrow> cell list" where
  "group_cells arts key cs = map snd (filter (\<lambda>(a, c). a = Some key) (zip arts cs))"

definition loc_slice :: "int list \<Rightarrow> int \<Rightarrow> int \<Rightarrow> 'a list \<Rightarrow> 'a list" where
  "loc_slice idx a b cs = map snd (filter (\<lambda>(l, c). a \<le> l \<and> l \<le> b) (zip idx cs))"

definition make_experiment :: "string \<Rightarrow> cell list \<Rightarrow> cell list \<Rightarrow> cell list \<Rightarrow> py_error + experiment_row" where
  "make_experiment art xs ys zs =
     (case coordinate_array xs ys zs of
        Inl e \<Rightarrow> Inl e
      | Inr arr \<Rightarrow> Inr \<lparr>exp_article = art, Coordinates_mm = arr, NumberOfFoci = int (length arr)\<rparr>)"

text \<open>
  The second layout stores the array built from the slices and, separately, \<^verbatim>\<open>len(x)\<close>.
\<close>

definition make_block_experiment ::
  "string \<Rightarrow> cell list \<Rightarrow> cell list \<Rightarrow> cell list \<Rightarrow> py_error + experiment_row" where
  "make_block_experiment art xs ys zs =
     (case coordinate_array xs ys zs of
        Inl e \<Rightarrow> Inl e
      | Inr arr \<Rightarrow> Inr \<lparr>exp_article = art, Coordinates_mm = arr, NumberOfFoci = int (length xs)\<rparr>)"

fun collect :: "(py_error + 'a) list \<Rightarrow> py_error + 'a list" where
  "collect [] = Inr []"
| "collect (r # rs) =
     (case r of
        Inl e \<Rightarrow> Inl e
      | Inr v \<Rightarrow> (case collect rs of Inl e \<Rightarrow> Inl e | Inr vs \<Rightarrow> Inr (v # vs)))"

text \<open>
  \<^verbatim>\<open>concat_coordinates(exp_info)\<close>. In the first layout a table without rows has no
  group: the row-wise \<^verbatim>\<open>apply\<close> then gives a table where a column is expected, and the
  assignment of \<^verbatim>\<open>Coordinates_mm\<close> raises. In the second layout \<^verbatim>\<open>pop(0)\<close> raises
  when no row names an article.
\<close>

definition concat_coordinates :: "exp_frame \<Rightarrow> py_error + experiment_row list" where
  "concat_coordinates exp_info =
     (if length (filter (\<lambda>a. a = None) (Articles exp_info)) = 0 then
        (if Articles exp_info = [] then Inl ValueError
         else
           collect (map (\<lambda>key. make_experiment key
                                  (group_cells (Articles exp_info) key (snd (col_x exp_info)))
                                  (group_cells (Articles exp_info) key (snd (col_y exp_info)))
                                  (group_cells (Articles exp_info) key (snd (col_z exp_info))))
                        (sort (remdups (map the (Articles exp_info))))))
      else
        (let idx = index_labels exp_info;
             article_rows = map fst (filter (\<lambda>(l, a). a \<noteq> None) (zip idx (Articles exp_info)))
         in case map (\<lambda>r. r - 1) article_rows of
              [] \<Rightarrow> Inl IndexError
            | _ # popped \<Rightarrow>
                (let end_of_articles = popped @ [int (length idx)];
                     names = map the (filter (\<lambda>a. a \<noteq> None) (Articles exp_info))
                 in collect (map (\<lambda>(art, a, b). make_block_experiment art
                                        (loc_slice idx a b (snd (col_x exp_info)))
                                        (loc_slice idx a b (snd (col_y exp_info)))
                                        (loc_slice idx a b (snd (col_z exp_info))))
                                 (zip names (zip article_rows end_of_articles))))))"

subsection \<open>Voxel space\<close>

record voxel_experiment = experiment_row +
  Coordinates :: "(int \<times> int \<times> int) list"

definition thresholds :: "int \<times> int \<times> int" where
  "thresholds = (90, 108, 90)"

definition np_minimum :: "int \<times> int \<times> int \<Rightarrow> int \<times> int \<times> int \<Rightarrow> int \<times> int \<times> int" where
  "np_minimum v t =
     (case v of (i, j, k) \<Rightarrow> (case t of (ti, tj, tk) \<Rightarrow> (min i ti, min j tj, min k tk)))"

text \<open>
  \<^verbatim>\<open>transform_coordinates_to_voxel_space(exp_info)\<close>. The affine matrix is defined in
  another module: \<open>to_voxel\<close> is what
  \<^verbatim>\<open>np.ceil(np.dot(np.linalg.inv(MNI_AFFINE), xyzmm.T))[:3].T.astype(int)\<close> gives for one
  focus. The function writes nothing to standard output, which is passed through.
\<close>

definition transform_coordinates_to_voxel_space ::
  "(cell \<times> cell \<times> cell \<Rightarrow> int \<times> int \<times> int) \<Rightarrow> experiment_row list \<Rightarrow> string list
     \<Rightarrow> voxel_experiment list \<times> string list" where
  "transform_coordinates_to_voxel_space to_voxel exp_info stdout =
     (map (\<lambda>row. experiment_row.extend row
             \<lparr>Coordinates = map (\<lambda>xyzmm. np_minimum (to_voxel xyzmm) thresholds) (Coordinates_mm row)\<rparr>)
          exp_info,
      stdout)"

section \<open>core/analyses/main_effect.py\<close>

text \<open>
  A function that can raise and changes the files and the log returns
  \<open>py_error + world\<close>; \<open>then_do\<close> runs the next step unless one has raised.
\<close>

definition then_do :: "py_error + 'a \<Rightarrow> ('a \<Rightarrow> py_error + 'b) \<Rightarrow> py_error + 'b" where
  "then_do r f = (case r of Inl e \<Rightarrow> Inl e | Inr v \<Rightarrow> f v)"

definition main_effect_parameters :: "string list" where
  "main_effect_parameters =
     [''project_path'', ''exp_df'', ''meta_name'', ''tfce_enabled'', ''cutoff_predict_enabled'',
      ''bin_steps'', ''cluster_forming_threshold'', ''monte_carlo_iterations'', ''nprocesses'']"

definition probabilistic_ale_parameters :: "string list" where
  "probabilistic_ale_parameters =
     [''project_path'', ''exp_df'', ''meta_name'', ''tfce_enabled'', ''cutoff_predict_enabled'',
      ''bin_steps'', ''cluster_forming_threshold'', ''monte_carlo_iterations'', ''target_n'',
      ''sample_n'', ''nprocesses'']"

text \<open>Kernels, the table of included experiments and the MA volumes are always written.\<close>

definition save_inputs :: "path \<Rightarrow> string \<Rightarrow> world \<Rightarrow> world" where
  "save_inputs project_path meta_name w =
     np_savez_compressed (joinpath project_path (meta_name @ ''_ma''))
       (write_file (joinpath project_path (meta_name @ ''_included_experiments.csv'')) Data
          (np_save (joinpath project_path (meta_name @ ''_kernels'')) w))"

definition foci_illustration :: "path \<Rightarrow> string \<Rightarrow> world \<Rightarrow> world" where
  "foci_illustration project_path meta_name w =
     (if \<not> path_exists w (joinpath project_path (''/Full/Volumes/Foci/'' @ meta_name @ ''.nii''))
      then plot_and_save (joinpath project_path (''Full/Volumes/'' @ meta_name @ ''_foci.nii''))
             (logger INFO (meta_name @ '' - illustrate Foci'') w)
      else w)"

text \<open>Loading a file that does not exist raises.\<close>

definition load_file :: "world \<Rightarrow> path \<Rightarrow> py_error + content" where
  "load_file w p = (case files w p of None \<Rightarrow> Inl FileNotFoundError | Some c \<Rightarrow> Inr c)"

text \<open>
  \<^verbatim>\<open>pickle.load\<close> raises on a file that is not a pickle. The two unpacking assignments,
  \<^verbatim>\<open>hx_conv, _ = pickle.load(f)\<close> and
  \<^verbatim>\<open>vfwe_null, cfwe_null, tfce_null = pickle.load(f)\<close>, take any sequence of two, or of
  three, and raise on another length. An entry that is a number is kept as the vector of
  that one number, which is what \<^verbatim>\<open>np.percentile\<close> makes of it when it flattens its
  argument. \<open>Data\<close> never comes out of \<open>pickle_load\<close>.
\<close>

definition pickle_load :: "world \<Rightarrow> path \<Rightarrow> py_error + content" where
  "pickle_load w p =
     (case files w p of
        None \<Rightarrow> Inl FileNotFoundError
      | Some Data \<Rightarrow> Inl UnpicklingError
      | Some held \<Rightarrow> Inr held)"

definition unpack2 :: "content \<Rightarrow> py_error + unit" where
  "unpack2 held =
     (case held of
        Histogram \<Rightarrow> Inr ()
      | CfweNull xs \<Rightarrow> (if length xs = 2 then Inr () else Inl ValueError)
      | MonteCarlo vfwe_null cfwe_null tfce_null \<Rightarrow> Inl ValueError
      | Data \<Rightarrow> Inl TypeError)"

definition unpack3 :: "content \<Rightarrow> py_error + rat list \<times> rat list \<times> rat list" where
  "unpack3 held =
     (case held of
        MonteCarlo vfwe_null cfwe_null tfce_null \<Rightarrow> Inr (vfwe_null, cfwe_null, tfce_null)
      | CfweNull xs \<Rightarrow>
          (case xs of [a, b, c] \<Rightarrow> Inr ([a], [b], [c]) | _ \<Rightarrow> Inl ValueError)
      | Histogram \<Rightarrow> Inl ValueError
      | Data \<Rightarrow> Inl TypeError)"

definition ale_calculation :: "path \<Rightarrow> string \<Rightarrow> world \<Rightarrow> py_error + world" where
  "ale_calculation project_path meta_name w =
     (if path_exists w (joinpath project_path (''Full/NullDistributions/'' @ meta_name @ ''.pickle''))
      then
        (let w1 = logger INFO (meta_name @ '' - loading null PDF'')
                    (logger INFO (meta_name @ '' - loading ALE'') w)
         in then_do (load_file w1 (joinpath project_path (''/Full/Volumes/'' @ meta_name @ ''_ale.nii'')))
              (\<lambda>ale. then_do (pickle_load w1 (joinpath project_path
                                   (''/Full/NullDistributions/'' @ meta_name @ ''.pickle'')))
                 (\<lambda>held. then_do (unpack2 held) (\<lambda>hx_conv. Inr w1))))
      else
        Inr (write_file (joinpath project_path
                           (''Full/NullDistributions/'' @ meta_name @ ''_histogram.pickle''))
               Histogram
               (plot_and_save (joinpath project_path (''Full/Volumes/'' @ meta_name @ ''_ale.nii''))
                  (logger INFO (meta_name @ '' - computing ALE and null PDF'') w))))"

definition z_calculation :: "path \<Rightarrow> string \<Rightarrow> world \<Rightarrow> world" where
  "z_calculation project_path meta_name w =
     (if path_exists w (joinpath project_path (''Full/Volumes/'' @ meta_name @ ''_z.nii''))
      then logger INFO (meta_name @ '' - loading z-values & TFCE'') w
      else plot_and_save (joinpath project_path (''Full/Volumes/'' @ meta_name @ ''_z.nii''))
             (logger INFO (meta_name @ '' - computing p-values & TFCE'') w))"

definition tfce_calculation :: "path \<Rightarrow> string \<Rightarrow> bool \<Rightarrow> world \<Rightarrow> world" where
  "tfce_calculation project_path meta_name tfce_enabled w =
     (if tfce_enabled then
        (if path_exists w (joinpath project_path
                             (''Full/Volumes/'' @ meta_name @ ''_tfce_uncorrected.nii''))
         then w
         else plot_and_save (joinpath project_path
                               (''Full/Volumes/'' @ meta_name @ ''_tfce_uncorrected.nii'')) w)
      else w)"

text \<open>
  The Monte Carlo null vectors of \<^verbatim>\<open>main_effect\<close>: read from the pickle if it exists,
  simulated and pickled otherwise. \<^verbatim>\<open>zip(*results)\<close> splits the per-iteration triples
  into three vectors; with no iteration there is nothing to unpack, which raises. The
  pickle is looked up by the name of the meta-analysis alone.
\<close>

definition simulate_null ::
  "'e collaborators \<Rightarrow> 'e list \<Rightarrow> bool \<Rightarrow> int option \<Rightarrow> int
     \<Rightarrow> py_error + rat list \<times> rat list \<times> rat list" where
  "simulate_null c exp_df tfce_enabled target_n monte_carlo_iterations =
     (let results = map (compute_monte_carlo_null c exp_df tfce_enabled target_n)
                        [0 ..< nat monte_carlo_iterations]
      in if results = [] then Inl ValueError
         else Inr (map fst results, map (fst \<circ> snd) results, map (snd \<circ> snd) results))"

definition monte_carlo_null ::
  "'e collaborators \<Rightarrow> path \<Rightarrow> 'e list \<Rightarrow> string \<Rightarrow> bool \<Rightarrow> int \<Rightarrow> world
     \<Rightarrow> py_error + (rat list \<times> rat list \<times> rat list) \<times> world" where
  "monte_carlo_null c project_path exp_df meta_name tfce_enabled monte_carlo_iterations w =
     (let pickle_path = joinpath project_path
                          (''Full/NullDistributions/'' @ meta_name @ ''_montecarlo.pickle'')
      in if path_exists w pickle_path then
           then_do (pickle_load w pickle_path)
             (\<lambda>held. then_do (unpack3 held)
                (\<lambda>(vfwe_null, cfwe_null, tfce_null).
                   Inr ((vfwe_null, cfwe_null, tfce_null),
                        logger INFO (meta_name @ '' - loading null'') w)))
         else
           then_do (simulate_null c exp_df tfce_enabled None monte_carlo_iterations)
             (\<lambda>(vfwe_null, cfwe_null, tfce_null).
                Inr ((vfwe_null, cfwe_null, tfce_null),
                     write_file pickle_path (MonteCarlo vfwe_null cfwe_null tfce_null)
                       (logger INFO (meta_name @ '' - simulating null'') w))))"

text \<open>
  The three corrected thresholds (\<^verbatim>\<open>vfwe_treshold\<close>, \<^verbatim>\<open>cfwe_threshold\<close>,
  \<^verbatim>\<open>tfce_threshold\<close>).
\<close>

definition corrected_thresholds ::
  "'e collaborators \<Rightarrow> path \<Rightarrow> 'e list \<Rightarrow> string \<Rightarrow> bool \<Rightarrow> bool \<Rightarrow> int \<Rightarrow> world
     \<Rightarrow> py_error + (rat \<times> rat \<times> rat) \<times> world" where
  "corrected_thresholds c project_path exp_df meta_name tfce_enabled cutoff_predict_enabled
       monte_carlo_iterations w =
     (if cutoff_predict_enabled then Inr (predict_cutoff c exp_df, w)
      else
        then_do (monte_carlo_null c project_path exp_df meta_name tfce_enabled
                   monte_carlo_iterations w)
          (\<lambda>((vfwe_null, cfwe_null, tfce_null), w1).
             Inr ((percentile c vfwe_null 95, percentile c cfwe_null 95,
                   percentile c tfce_null 95), w1)))"

text \<open>
  The thresholded maps. The lines logged when an effect is significant depend on the voxel
  values and are left out.
\<close>

definition inference :: "path \<Rightarrow> string \<Rightarrow> bool \<Rightarrow> world \<Rightarrow> world" where
  "inference project_path meta_name tfce_enabled w =
     (if \<not> path_exists w (joinpath project_path (''Full/Volumes/'' @ meta_name @ ''_vfwe.nii''))
      then
        (let w1 = plot_and_save (joinpath project_path (''Full/Volumes/'' @ meta_name @ ''_vFWE05.nii''))
                    (logger INFO (meta_name @ '' - inference and printing'') w);
             w2 = plot_and_save (joinpath project_path (''Full/Volumes/'' @ meta_name @ ''_cFWE05.nii''))
                    w1
         in if tfce_enabled
            then plot_and_save (joinpath project_path
                                  (''Full/Volumes/'' @ meta_name @ ''_TFCE05.nii'')) w2
            else w2)
      else logger INFO (meta_name @ '' - done!'') w)"

definition main_effect ::
  "'e collaborators \<Rightarrow> path \<Rightarrow> 'e list \<Rightarrow> string \<Rightarrow> bool \<Rightarrow> bool \<Rightarrow> int \<Rightarrow> world
     \<Rightarrow> py_error + world" where
  "main_effect c project_path0 exp_df meta_name tfce_enabled cutoff_predict_enabled
       monte_carlo_iterations w =
     (let project_path = joinpath project_path0 ''Results/MainEffect''
      in then_do (ale_calculation project_path meta_name
                    (foci_illustration project_path meta_name
                       (save_inputs project_path meta_name w)))
           (\<lambda>w1. then_do (corrected_thresholds c project_path exp_df meta_name tfce_enabled
                             cutoff_predict_enabled monte_carlo_iterations
                             (tfce_calculation project_path meta_name tfce_enabled
                                (z_calculation project_path meta_name w1)))
              (\<lambda>(cutoffs, w2). Inr (inference project_path meta_name tfce_enabled w2))))"

text \<open>
  \<^verbatim>\<open>probabilistic_ale\<close> as this module defines it: the cluster null of the subsampled
  analysis, then the averaged subsample map.
\<close>

definition cv_cluster_cutoff ::
  "'e collaborators \<Rightarrow> path \<Rightarrow> 'e list \<Rightarrow> string \<Rightarrow> int \<Rightarrow> int option \<Rightarrow> world
     \<Rightarrow> py_error + world" where
  "cv_cluster_cutoff c project_path exp_df meta_name monte_carlo_iterations target_n w =
     (if path_exists w (joinpath project_path
                          (''CV/NullDistributions/'' @ meta_name @ ''_montecarlo_''
                             @ format_target_n target_n @ ''.pickle''))
      then
        then_do (pickle_load w (joinpath project_path
                                  (''CV/NullDistributions/'' @ meta_name @ ''_montecarlo_''
                                     @ format_target_n target_n @ ''.pickle'')))
          (\<lambda>cfwe_null. Inr (logger INFO (meta_name @ '' - loading cv cluster cut-off.'') w))
      else
        then_do (simulate_null c exp_df False target_n monte_carlo_iterations)
          (\<lambda>(vfwe_null, cfwe_null, tfce_null).
             Inr (write_file (joinpath project_path
                                (''NullDistributions/'' @ meta_name @ ''_montecarlo_''
                                   @ format_target_n target_n @ ''.pickle''))
                    (CfweNull cfwe_null)
                    (logger INFO (meta_name @ '' - computing cv cluster cut-off.'') w))))"

definition cv_ale :: "path \<Rightarrow> string \<Rightarrow> int option \<Rightarrow> world \<Rightarrow> world" where
  "cv_ale project_path meta_name target_n w =
     (if path_exists w (joinpath project_path
                          (''Volumes/'' @ meta_name @ ''_sub_ale_'' @ format_target_n target_n @ ''.nii''))
      then logger INFO (meta_name @ '' - loading cv ale'') w
      else logger INFO (meta_name @ '' - probabilistic ALE done!'')
             (plot_and_save (joinpath project_path
                               (''Volumes/'' @ meta_name @ ''_sub_ale_'' @ format_target_n target_n
                                  @ ''.nii''))
                (logger INFO (meta_name @ '' - computing cv ale.'') w)))"

definition probabilistic_ale ::
  "'e collaborators \<Rightarrow> path \<Rightarrow> 'e list \<Rightarrow> string \<Rightarrow> int \<Rightarrow> int option \<Rightarrow> world
     \<Rightarrow> py_error + world" where
  "probabilistic_ale c project_path0 exp_df meta_name monte_carlo_iterations target_n w =
     (let project_path = joinpath project_path0 ''Results/MainEffect/CV''
      in then_do (cv_cluster_cutoff c project_path exp_df meta_name monte_carlo_iterations target_n
                    (logger INFO (meta_name @ '' - entering probabilistic ALE routine.'')
                       (save_inputs project_path meta_name w)))
           (\<lambda>w1. Inr (cv_ale project_path meta_name target_n w1)))"

section \<open>ale.py: the orchestration layer\<close>

text \<open>
  The analysis table: one row per analysis, with its type code (missing in the second row
  of a contrast), the name of the meta-analysis and the conditions that select its
  experiments. The configuration is taken to hold every key that is read.
\<close>

record analysis_row =
  row_type :: "string option"
  row_name :: string
  row_conditions :: "string list"

record params =
  params_tfce_enabled :: bool
  params_cutoff_predict_enabled :: bool
  params_monte_carlo_iterations :: int
  params_subsample_n :: int

definition iloc :: "'a list \<Rightarrow> nat \<Rightarrow> py_error + 'a" where
  "iloc df i = (if i < length df then Inr (df ! i) else Inl IndexError)"

text \<open>
  A table of experiments with its index: the rows, each with its label. The table of all
  experiments is labelled \<open>0, \<dots>, n - 1\<close> (both layouts of \<^verbatim>\<open>concat_coordinates\<close>
  end with a reset of the index), so it is the list of its rows; \<^verbatim>\<open>.loc[labels]\<close>
  raises for a label that is not in it.
\<close>

type_synonym 'e frame = "(int \<times> 'e) list"

definition loc :: "'e list \<Rightarrow> int list \<Rightarrow> py_error + 'e frame" where
  "loc exp_all_df labels =
     (if \<forall>l \<in> set labels. 0 \<le> l \<and> l < int (length exp_all_df)
      then Inr (map (\<lambda>l. (l, exp_all_df ! nat l)) labels)
      else Inl KeyError)"

definition reset_frame_index :: "'e frame \<Rightarrow> 'e frame" where
  "reset_frame_index df = zip (map int [0 ..< length df]) (map snd df)"

definition frame_index :: "'e frame \<Rightarrow> int list" where
  "frame_index df = map fst df"

definition drop_labels :: "int set \<Rightarrow> 'e frame \<Rightarrow> 'e frame" where
  "drop_labels labels df = filter (\<lambda>(l, row). l \<notin> labels) df"

text \<open>\<^verbatim>\<open>exp_all_df.loc[exp_idxs].reset_index(drop=True)\<close> for the conditions of a row.\<close>

definition select_experiments ::
  "'e collaborators \<Rightarrow> 'e list \<Rightarrow> string list \<Rightarrow> py_error + 'e frame" where
  "select_experiments c exp_all_df conds =
     then_do (loc exp_all_df (fst (compile_experiments c conds)))
       (\<lambda>selected. Inr (reset_frame_index selected))"

text \<open>
  The target size written in a type code: \<^verbatim>\<open>int(code[1:])\<close> if the code is longer than
  one character, \<^verbatim>\<open>None\<close> otherwise. A cell that is not a string has no length.
\<close>

definition parse_target_n :: "string option \<Rightarrow> py_error + int option" where
  "parse_target_n cell0 =
     (case cell0 of
        None \<Rightarrow> Inl TypeError
      | Some code \<Rightarrow>
          (if length code > 1 then
             (case py_int (drop 1 code) of None \<Rightarrow> Inl ValueError | Some n \<Rightarrow> Inr (Some n))
           else Inr None))"

definition run_main_effect ::
  "'e collaborators \<Rightarrow> analysis_row list \<Rightarrow> nat \<Rightarrow> path \<Rightarrow> params \<Rightarrow> 'e list \<Rightarrow> world
     \<Rightarrow> py_error + world" where
  "run_main_effect c analysis_df row_idx project_path ps exp_all_df w =
     then_do (iloc analysis_df row_idx)
       (\<lambda>row.
          let meta_name = row_name row;
              result_path = joinpath project_path
                              (''Results/MainEffect/Volumes/'' @ meta_name @ ''_cFWE.nii'')
          in if path_exists w result_path
             then Inr (logger INFO (''Main Effect results for '' @ meta_name @ '' already exist.'') w)
             else
               then_do (select_experiments c exp_all_df (row_conditions row))
                 (\<lambda>exp_df.
                    then_do (bind_arguments main_effect_parameters 3 3
                               [''tfce_enabled'', ''cutoff_predict_enabled'', ''bin_steps'',
                                ''cluster_forming_threshold'', ''monte_carlo_iterations'',
                                ''nprocesses''])
                      (\<lambda>bound.
                         then_do (main_effect c project_path (map snd exp_df) meta_name
                                    (params_tfce_enabled ps) (params_cutoff_predict_enabled ps)
                                    (params_monte_carlo_iterations ps)
                                    (logger INFO ''Running Main-Effect Analysis'' w))
                           (\<lambda>w1. Inr (fold (\<lambda>mask_name. record_call (RoiAle meta_name mask_name))
                                         (snd (compile_experiments c (row_conditions row)))
                                         (record_call (Contribution meta_name) w1))))))"

text \<open>
  \<^verbatim>\<open>run_probabilistic_ale\<close>. The \<^verbatim>\<open>probabilistic_ale\<close> it calls is imported from
  \<^verbatim>\<open>jale.core.analyses.probabilistic\<close>, another module, so the call is recorded.
\<close>

definition run_probabilistic_ale ::
  "'e collaborators \<Rightarrow> analysis_row list \<Rightarrow> nat \<Rightarrow> path \<Rightarrow> params \<Rightarrow> 'e list \<Rightarrow> world
     \<Rightarrow> py_error + world" where
  "run_probabilistic_ale c analysis_df row_idx project_path ps exp_all_df w =
     then_do (iloc analysis_df row_idx)
       (\<lambda>row.
          let meta_name = row_name row
          in then_do (parse_target_n (row_type row))
               (\<lambda>target_n.
                  let result_path = joinpath project_path
                                      (''Results/Probabilistic/Volumes/'' @ meta_name @ ''_sub_ale_''
                                         @ format_target_n target_n @ ''.nii'')
                  in if path_exists w result_path
                     then Inr (logger INFO (''Probabilistic ALE results for '' @ meta_name
                                              @ '' already exist.'') w)
                     else
                       then_do (select_experiments c exp_all_df (row_conditions row))
                         (\<lambda>exp_df.
                            let w1 = logger INFO ''Running Probabilistic ALE'' w
                            in case target_n of
                                 None \<Rightarrow>
                                   Inr (logger WARNING
                                          (meta_name @ '': Need to specify subsampling N'') w1)
                               | Some n \<Rightarrow>
                                   (if n \<noteq> 0
                                    then Inr (record_call (ProbabilisticAle meta_name n) w1)
                                    else Inr (logger WARNING
                                                (meta_name @ '': Need to specify subsampling N'')
                                                w1)))))"

text \<open>
  \<^verbatim>\<open>setup_contrast_data\<close>: the two names and the two experiment tables of a contrast,
  read from the row and the one after it. The two-element lists are pairs.
\<close>

definition setup_contrast_data ::
  "'e collaborators \<Rightarrow> analysis_row list \<Rightarrow> nat \<Rightarrow> 'e list
     \<Rightarrow> py_error + (string \<times> string) \<times> ('e frame \<times> 'e frame)" where
  "setup_contrast_data c analysis_df row_idx exp_all_df =
     then_do (iloc analysis_df row_idx)
       (\<lambda>row1. then_do (iloc analysis_df (row_idx + 1))
          (\<lambda>row2. then_do (select_experiments c exp_all_df (row_conditions row1))
             (\<lambda>df1. then_do (select_experiments c exp_all_df (row_conditions row2))
                (\<lambda>df2. Inr ((row_name row1, row_name row2), (df1, df2))))))"

text \<open>
  The removal of the overlap in \<^verbatim>\<open>run_contrast_analysis\<close>: the labels that the two
  indices share are dropped from both tables.
\<close>

definition remove_overlap :: "'e frame \<times> 'e frame \<Rightarrow> 'e frame \<times> 'e frame" where
  "remove_overlap exp_dfs =
     (let exp_overlap = set (frame_index (fst exp_dfs)) \<inter> set (frame_index (snd exp_dfs))
      in (drop_labels exp_overlap (fst exp_dfs), drop_labels exp_overlap (snd exp_dfs)))"

definition contrast_prerequisite ::
  "'e collaborators \<Rightarrow> path \<Rightarrow> params \<Rightarrow> string \<Rightarrow> 'e frame \<Rightarrow> world \<Rightarrow> py_error + world" where
  "contrast_prerequisite c project_path ps meta_name exp_df w =
     (if \<not> path_exists w (joinpath project_path
                            (''Results/MainEffect/Volumes/'' @ meta_name @ ''_cFWE.nii''))
      then
        then_do (bind_arguments main_effect_parameters 3 3
                   [''tfce_enabled'', ''cutoff_predict_enabled'', ''bin_steps'',
                    ''cluster_forming_threshold'', ''monte_carlo_iterations'', ''nprocesses''])
          (\<lambda>bound.
             then_do (main_effect c project_path (map snd exp_df) meta_name
                        (params_tfce_enabled ps) (params_cutoff_predict_enabled ps)
                        (params_monte_carlo_iterations ps)
                        (logger INFO (''Running main effect for '' @ meta_name
                                        @ '' as prerequisite for contrast analysis'') w))
               (\<lambda>w1. Inr (record_call (Contribution meta_name) w1)))
      else Inr w)"

definition run_contrast_analysis ::
  "'e collaborators \<Rightarrow> analysis_row list \<Rightarrow> nat \<Rightarrow> path \<Rightarrow> params \<Rightarrow> 'e list \<Rightarrow> world
     \<Rightarrow> py_error + world" where
  "run_contrast_analysis c analysis_df row_idx project_path ps exp_all_df w =
     then_do (setup_contrast_data c analysis_df row_idx exp_all_df)
       (\<lambda>(meta_names, exp_dfs).
          then_do (contrast_prerequisite c project_path ps (fst meta_names) (fst exp_dfs) w)
            (\<lambda>w1. then_do (contrast_prerequisite c project_path ps (snd meta_names)
                              (snd exp_dfs) w1)
               (\<lambda>w2. let exp_dfs = remove_overlap exp_dfs
                      in Inr (record_call (Contrast [fst meta_names, snd meta_names]) w2))))"


text \<open>
  \<^verbatim>\<open>determine_target_n(row_value, exp_dfs)\<close>. The two experiment tables enter only
  through their lengths. \<^verbatim>\<open>np.floor(np.mean((m, 17)))\<close> is \<open>(m + 17) div 2\<close> on
  integers.
\<close>

definition determine_target_n :: "string \<Rightarrow> 'a list \<times> 'b list \<Rightarrow> py_error + int" where
  "determine_target_n row_value exp_dfs =
     (if length row_value > 1 then
        (case py_int (drop 1 row_value) of None \<Rightarrow> Inl ValueError | Some v \<Rightarrow> Inr v)
      else
        (let n0 = int (length (fst exp_dfs)); n1 = int (length (snd exp_dfs));
             m = min n0 n1
         in Inr (min ((m + 17) div 2) (m - 2))))"

text \<open>
  The prerequisite of a balanced contrast. The call gives \<^verbatim>\<open>main_effect\<close> three
  positional arguments and the keywords \<^verbatim>\<open>target_n\<close>, \<^verbatim>\<open>monte_carlo_iterations\<close>,
  \<^verbatim>\<open>sample_n\<close> and \<^verbatim>\<open>nprocesses\<close>; were they to bind, the switches would keep their
  defaults.
\<close>

definition subsampling_prerequisite ::
  "'e collaborators \<Rightarrow> path \<Rightarrow> params \<Rightarrow> int \<Rightarrow> string \<Rightarrow> 'e frame \<Rightarrow> world
     \<Rightarrow> py_error + world" where
  "subsampling_prerequisite c project_path ps target_n meta_name exp_df w =
     (if \<not> path_exists w (joinpath project_path
                            (''Results/MainEffect/Volumes/'' @ meta_name @ ''_sub_ale_''
                               @ str_int target_n @ ''.nii''))
      then
        then_do (bind_arguments main_effect_parameters 3 3
                   [''target_n'', ''monte_carlo_iterations'', ''sample_n'', ''nprocesses''])
          (\<lambda>bound.
             main_effect c project_path (map snd exp_df) meta_name True True
               (params_monte_carlo_iterations ps)
               (logger INFO (''Running subsampling ale for '' @ meta_name
                               @ '' as prerequisite for balanced contrast analysis'') w))
      else Inr w)"

definition run_balanced_contrast ::
  "'e collaborators \<Rightarrow> analysis_row list \<Rightarrow> nat \<Rightarrow> path \<Rightarrow> params \<Rightarrow> 'e list \<Rightarrow> world
     \<Rightarrow> py_error + world" where
  "run_balanced_contrast c analysis_df row_idx project_path ps exp_all_df w =
     then_do (setup_contrast_data c analysis_df row_idx exp_all_df)
       (\<lambda>(meta_names, exp_dfs).
          then_do (iloc analysis_df row_idx)
            (\<lambda>row. then_do (case row_type row of
                               None \<Rightarrow> Inl TypeError
                             | Some row_value \<Rightarrow> determine_target_n row_value exp_dfs)
               (\<lambda>target_n.
                  then_do (subsampling_prerequisite c project_path ps target_n (fst meta_names)
                             (fst exp_dfs) w)
                    (\<lambda>w1. then_do (subsampling_prerequisite c project_path ps target_n
                                      (snd meta_names) (snd exp_dfs) w1)
                       (\<lambda>w2. Inr (record_call
                                     (BalancedContrast [fst meta_names, snd meta_names] target_n)
                                     w2))))))"

section \<open>A small project\<close>

text \<open>
  Concrete inputs for the statements below: ten experiments, two conditions that select
  the experiments 5, 7, 9 and the experiment 9, a Monte Carlo engine whose maxima grow with
  the number of the iteration, and the linear interpolation that \<^verbatim>\<open>np.percentile\<close>
  applies to a non-empty vector by default.
\<close>

definition linear_percentile :: "rat list \<Rightarrow> nat \<Rightarrow> rat" where
  "linear_percentile xs q =
     (let sorted_xs = sort xs;
          h = of_nat (length xs - 1) * of_nat q / 100;
          lo = nat \<lfloor>h\<rfloor>;
          hi = min (lo + 1) (length xs - 1)
      in if xs = [] then 0
         else sorted_xs ! lo + (h - of_int \<lfloor>h\<rfloor>) * (sorted_xs ! hi - sorted_xs ! lo))"

definition example_collaborators :: "string collaborators" where
  "example_collaborators =
     \<lparr>compile_experiments = (\<lambda>conds. if conds = [''faces''] then ([5, 7, 9], []) else ([9], [])),
      predict_cutoff = (\<lambda>exp_df. (1, 2, 3)),
      compute_monte_carlo_null = (\<lambda>exp_df tfce_enabled target_n i.
                                    (of_nat i, of_nat (2 * i), of_nat (3 * i))),
      percentile = linear_percentile\<rparr>"

definition example_experiments :: "string list" where
  "example_experiments =
     [''e0'', ''e1'', ''e2'', ''e3'', ''e4'', ''e5'', ''e6'', ''e7'', ''e8'', ''e9'']"

definition example_params :: params where
  "example_params =
     \<lparr>params_tfce_enabled = True, params_cutoff_predict_enabled = False,
      params_monte_carlo_iterations = 3, params_subsample_n = 10\<rparr>"

definition fresh_project :: world where
  "fresh_project = \<lparr>files = Map.empty, logged = [], calls = []\<rparr>"

definition analysis_table :: "string \<Rightarrow> analysis_row list" where
  "analysis_table code =
     [\<lparr>row_type = Some code, row_name = ''A'', row_conditions = [''faces'']\<rparr>,
      \<lparr>row_type = None, row_name = ''B'', row_conditions = [''houses'']\<rparr>]"

section \<open>Theorems\<close>

subsection \<open>The experiment table\<close>

lemma collect_Inr:
  "collect rs = Inr vs \<Longrightarrow> v \<in> set vs \<Longrightarrow> Inr v \<in> set rs"
  by (induction rs arbitrary: vs) (auto split: sum.splits)

lemma make_experiment_count:
  "make_experiment art xs ys zs = Inr row \<Longrightarrow> NumberOfFoci row = int (length (Coordinates_mm row))"
  by (auto simp: make_experiment_def split: sum.splits)

lemma make_block_experiment_count:
  "make_block_experiment art xs ys zs = Inr row \<Longrightarrow> NumberOfFoci row = int (length (Coordinates_mm row))"
  by (auto simp: make_block_experiment_def coordinate_array_def split: sum.splits if_splits)

text \<open>
  C9. In both layouts, every experiment row that \<^verbatim>\<open>concat_coordinates\<close> produces stores
  as \<open>NumberOfFoci\<close> the number of coordinate triplets of its \<open>Coordinates_mm\<close> array.
\<close>

theorem concat_coordinates_foci_count:
  assumes "concat_coordinates exp_info = Inr rows"
  shows "\<forall>row \<in> set rows. NumberOfFoci row = int (length (Coordinates_mm row))"
proof
  fix row assume r: "row \<in> set rows"
  show "NumberOfFoci row = int (length (Coordinates_mm row))"
  proof (cases "length (filter (\<lambda>a. a = None) (Articles exp_info)) = 0")
    case True
    then obtain f :: "string \<Rightarrow> py_error + experiment_row" and keys
      where c: "collect (map f keys) = Inr rows"
        and f: "\<And>key. \<exists>xs ys zs. f key = make_experiment key xs ys zs"
      using assms unfolding concat_coordinates_def by (fastforce split: if_splits)
    from collect_Inr [OF c r] obtain key where "f key = Inr row" by auto
    with f obtain xs ys zs where "make_experiment key xs ys zs = Inr row" by metis
    then show ?thesis by (rule make_experiment_count)
  next
    case False
    then obtain f :: "string \<times> int \<times> int \<Rightarrow> py_error + experiment_row" and blocks
      where c: "collect (map f blocks) = Inr rows"
        and f: "\<And>blk. \<exists>art xs ys zs. f blk = make_block_experiment art xs ys zs"
      using assms unfolding concat_coordinates_def Let_def
      by (fastforce split: list.splits)
    from collect_Inr [OF c r] obtain blk where "f blk = Inr row" by auto
    with f obtain art xs ys zs where "make_block_experiment art xs ys zs = Inr row" by metis
    then show ?thesis by (rule make_block_experiment_count)
  qed
qed

theorem concat_coordinates_foci_count_witness:
  "concat_coordinates
     \<lparr>index_labels = [0, 1, 2, 3, 4],
      Articles = [Some ''Smith'', None, None, Some ''Abel'', None],
      col_x = (Float64, [Num 1, Num 2, Num 3, Num 4, Num 5]),
      col_y = (Float64, [Num 10, Num 20, Num 30, Num 40, Num 50]),
      col_z = (Float64, [Num 7, Num 8, Num 9, Num 6, Num 5])\<rparr>
   = Inr [\<lparr>exp_article = ''Smith'',
           Coordinates_mm = [(Num 1, Num 10, Num 7), (Num 2, Num 20, Num 8), (Num 3, Num 30, Num 9)],
           NumberOfFoci = 3\<rparr>,
          \<lparr>exp_article = ''Abel'',
           Coordinates_mm = [(Num 4, Num 40, Num 6), (Num 5, Num 50, Num 5)],
           NumberOfFoci = 2\<rparr>]
   \<and> NumberOfFoci \<lparr>exp_article = ''Smith'',
           Coordinates_mm = [(Num 1, Num 10, Num 7), (Num 2, Num 20, Num 8), (Num 3, Num 30, Num 9)],
           NumberOfFoci = 3\<rparr>
       = int (length (Coordinates_mm \<lparr>exp_article = ''Smith'',
           Coordinates_mm = [(Num 1, Num 10, Num 7), (Num 2, Num 20, Num 8), (Num 3, Num 30, Num 9)],
           NumberOfFoci = 3\<rparr>))
   \<and> NumberOfFoci \<lparr>exp_article = ''Abel'',
           Coordinates_mm = [(Num 4, Num 40, Num 6), (Num 5, Num 50, Num 5)],
           NumberOfFoci = 2\<rparr>
       = int (length (Coordinates_mm \<lparr>exp_article = ''Abel'',
           Coordinates_mm = [(Num 4, Num 40, Num 6), (Num 5, Num 50, Num 5)],
           NumberOfFoci = 2\<rparr>))"
proof -
  have run: "concat_coordinates
     \<lparr>index_labels = [0, 1, 2, 3, 4],
      Articles = [Some ''Smith'', None, None, Some ''Abel'', None],
      col_x = (Float64, [Num 1, Num 2, Num 3, Num 4, Num 5]),
      col_y = (Float64, [Num 10, Num 20, Num 30, Num 40, Num 50]),
      col_z = (Float64, [Num 7, Num 8, Num 9, Num 6, Num 5])\<rparr>
   = Inr [\<lparr>exp_article = ''Smith'',
           Coordinates_mm = [(Num 1, Num 10, Num 7), (Num 2, Num 20, Num 8), (Num 3, Num 30, Num 9)],
           NumberOfFoci = 3\<rparr>,
          \<lparr>exp_article = ''Abel'',
           Coordinates_mm = [(Num 4, Num 40, Num 6), (Num 5, Num 50, Num 5)],
           NumberOfFoci = 2\<rparr>]"
    by (simp add: concat_coordinates_def make_block_experiment_def coordinate_array_def
        loc_slice_def)
  from concat_coordinates_foci_count [OF run] run show ?thesis
    by (metis list.set_intros(1) list.set_intros(2))
qed

text \<open>
  The first layout on a small table: the groups come out in the order of the article names.
\<close>

lemma concat_coordinates_grouped_example:
  "concat_coordinates
     \<lparr>index_labels = [0, 1, 2],
      Articles = [Some ''Smith'', Some ''Abel'', Some ''Smith''],
      col_x = (Float64, [Num 1, Num 2, Num 3]),
      col_y = (Float64, [Num 10, Num 20, Num 30]),
      col_z = (Float64, [Num 7, Num 8, Num 9])\<rparr>
   = Inr [\<lparr>exp_article = ''Abel'', Coordinates_mm = [(Num 2, Num 20, Num 8)], NumberOfFoci = 1\<rparr>,
          \<lparr>exp_article = ''Smith'',
           Coordinates_mm = [(Num 1, Num 10, Num 7), (Num 3, Num 30, Num 9)],
           NumberOfFoci = 2\<rparr>]"
  by (simp add: concat_coordinates_def make_experiment_def coordinate_array_def group_cells_def
      less_eq_char_def less_char_def)

text \<open>What decides between exit and return is the dtype of the three columns alone.\<close>

lemma check_coordinates_exit_iff:
  "snd (check_coordinates_are_numbers spell df) = Inl SystemExit
     \<longleftrightarrow> \<not> (is_float_dtype (col_x df) \<and> is_float_dtype (col_y df) \<and> is_float_dtype (col_z df))"
  by (simp add: check_coordinates_are_numbers_def Let_def)

lemma check_coordinates_float_columns:
  "is_float_dtype (col_x df) \<Longrightarrow> is_float_dtype (col_y df) \<Longrightarrow> is_float_dtype (col_z df)
     \<Longrightarrow> check_coordinates_are_numbers spell df = ([], Inr (reset_index df))"
  by (simp add: check_coordinates_are_numbers_def report_column_def)

text \<open>
  C8. A table whose coordinate columns hold whole numbers only, stored with an integer
  dtype: every cell is numeric, yet the function exits, and the row lists it prints are
  empty.
\<close>

theorem check_coordinates_integer_columns_exit:
  "check_coordinates_are_numbers (\<lambda>s. None)
     \<lparr>index_labels = [0, 1],
      Articles = [Some ''Smith'', Some ''Smith''],
      col_x = (Int64, [Num 1, Num 2]),
      col_y = (Int64, [Num 3, Num 4]),
      col_z = (Int64, [Num 5, Num 6])\<rparr>
   = ([(''x'', []), (''y'', []), (''z'', [])], Inl SystemExit)"
  by (simp add: check_coordinates_are_numbers_def report_column_def is_float_dtype_def
      non_integer_mask_def to_numeric_def)

text \<open>The cap holds from above, and only from above.\<close>

lemma np_minimum_upper:
  "np_minimum v thresholds = (i, j, k) \<Longrightarrow> i \<le> 90 \<and> j \<le> 108 \<and> k \<le> 90"
  by (auto simp: np_minimum_def thresholds_def split: prod.splits)

lemma transform_coordinates_upper:
  assumes "row \<in> set (fst (transform_coordinates_to_voxel_space to_voxel exp_info out))"
    and "(i, j, k) \<in> set (Coordinates row)"
  shows "i \<le> 90 \<and> j \<le> 108 \<and> k \<le> 90"
proof -
  from assms obtain xyzmm where "np_minimum (to_voxel xyzmm) thresholds = (i, j, k)"
    by (auto simp: transform_coordinates_to_voxel_space_def experiment_row.extend_def)
  then show ?thesis by (rule np_minimum_upper)
qed

lemma np_minimum_negative: "np_minimum (- 205, 63, 36) thresholds = (- 205, 63, 36)"
  by (simp add: np_minimum_def thresholds_def)

text \<open>
  C4. The table of \<^verbatim>\<open>test_convert_2_voxel_space\<close>, whose first focus was moved to
  x = 500 mm: whatever the affine matrix maps it to, the coordinates are capped and the
  standard output stays empty, where the test expects the line
  \<^verbatim>\<open>WARNING: Coordinate detected outside of Brain boundaries!\<close>.
\<close>

theorem transform_coordinates_no_warning:
  "transform_coordinates_to_voxel_space to_voxel
     [\<lparr>exp_article = ''Smith'', Coordinates_mm = [(Num 500, Num 18, Num 48)], NumberOfFoci = 1\<rparr>] []
   = ([\<lparr>exp_article = ''Smith'', Coordinates_mm = [(Num 500, Num 18, Num 48)], NumberOfFoci = 1,
        Coordinates = [np_minimum (to_voxel (Num 500, Num 18, Num 48)) thresholds]\<rparr>],
      [])"
  by (simp add: transform_coordinates_to_voxel_space_def experiment_row.extend_def)

subsection \<open>The orchestration layer\<close>

lemmas example_defs = example_collaborators_def example_experiments_def example_params_def
  fresh_project_def analysis_table_def

lemmas run_defs = then_do_def iloc_def select_experiments_def loc_def reset_frame_index_def
  joinpath_def path_exists_def write_file_def logger_def record_call_def plot_and_save_def
  np_save_def np_savez_compressed_def endswith_def load_file_def

text \<open>
  What the removal of the overlap does to two tables whose indices were reset: the shared
  labels are the positions \<open>0, \<dots>, min n1 n2 - 1\<close>, so each table loses its first
  \<open>min n1 n2\<close> rows, whatever experiments they hold, and the smaller table is emptied.
\<close>

lemma filter_labels_from:
  "length rows = n \<Longrightarrow>
   filter (\<lambda>(l, row). \<not> l < int k) (zip (map int [i ..< i + n]) rows)
     = drop (k - i) (zip (map int [i ..< i + n]) rows)"
proof (induction rows arbitrary: i n)
  case Nil
  then show ?case by simp
next
  case (Cons r rows)
  then obtain m where n: "n = Suc m" and m: "length rows = m" by (cases n) auto
  have upt: "[i ..< i + Suc m] = i # [Suc i ..< Suc i + m]"
    by (simp add: upt_rec)
  note IH = Cons.IH [OF m, of "Suc i"]
  show ?case
  proof (cases "k \<le> i")
    case True
    then have k: "k - i = 0" "k - Suc i = 0" by simp_all
    from True IH show ?thesis unfolding n upt k by simp
  next
    case False
    then have k: "k - i = Suc (k - Suc i)" by simp
    from False IH show ?thesis unfolding n upt k by simp
  qed
qed

lemma frame_index_reset: "frame_index (reset_frame_index df) = map int [0 ..< length df]"
  by (simp add: frame_index_def reset_frame_index_def)

lemma reset_frame_index_idem: "reset_frame_index (reset_frame_index df) = reset_frame_index df"
  by (simp add: reset_frame_index_def)

lemma shared_labels:
  "set (map int [0 ..< n]) \<inter> set (map int [0 ..< m]) = {0 ..< int (min n m)}"
proof -
  have "\<And>j. set (map int [0 ..< j]) = {0 ..< int j}"
    using image_int_atLeastLessThan [of 0] by simp
  then show ?thesis by auto
qed

lemma drop_shared_labels:
  "drop_labels {0 ..< int k} (reset_frame_index rows) = drop k (reset_frame_index rows)"
proof -
  have "filter (\<lambda>(l, row). l \<notin> {0 ..< int k}) (zip (map int [0 ..< 0 + length rows]) (map snd rows))
      = filter (\<lambda>(l, row). \<not> l < int k) (zip (map int [0 ..< 0 + length rows]) (map snd rows))"
    by (rule filter_cong) (auto dest!: set_zip_leftD)
  also have "\<dots> = drop (k - 0) (zip (map int [0 ..< 0 + length rows]) (map snd rows))"
    by (rule filter_labels_from) simp
  finally show ?thesis
    by (simp add: reset_frame_index_def drop_labels_def)
qed

lemma remove_overlap_reset:
  "remove_overlap (reset_frame_index a, reset_frame_index b)
     = (drop (min (length a) (length b)) (reset_frame_index a),
        drop (min (length a) (length b)) (reset_frame_index b))"
  unfolding remove_overlap_def Let_def fst_conv snd_conv frame_index_reset shared_labels
    drop_shared_labels ..

lemma setup_contrast_data_reset:
  assumes "setup_contrast_data c analysis_df row_idx exp_all_df = Inr (meta_names, (df1, df2))"
  shows "reset_frame_index df1 = df1 \<and> reset_frame_index df2 = df2"
  using assms
  by (auto simp: setup_contrast_data_def select_experiments_def then_do_def
      reset_frame_index_idem split: sum.splits)

lemma remove_overlap_after_setup:
  assumes "setup_contrast_data c analysis_df row_idx exp_all_df = Inr (meta_names, (df1, df2))"
  shows "remove_overlap (df1, df2)
           = (drop (min (length df1) (length df2)) df1, drop (min (length df1) (length df2)) df2)"
proof -
  from setup_contrast_data_reset [OF assms]
  have r: "reset_frame_index df1 = df1" "reset_frame_index df2 = df2" by simp_all
  from remove_overlap_reset [of df1 df2] show ?thesis unfolding r .
qed

text \<open>
  C1. Two pools built by \<^verbatim>\<open>setup_contrast_data\<close>: the experiments 5, 7, 9 and the
  experiment 9. Experiment 9 is in both pools. The removal drops the row at position 0 of
  each pool: the first pool keeps the experiments 7 and 9, having lost experiment 5, which
  the second pool never held.
\<close>

theorem remove_overlap_keeps_shared_experiment:
  "setup_contrast_data example_collaborators (analysis_table ''C'') 0 example_experiments
     = Inr ((''A'', ''B''), ([(0, ''e5''), (1, ''e7''), (2, ''e9'')], [(0, ''e9'')]))
   \<and> remove_overlap ([(0, ''e5''), (1, ''e7''), (2, ''e9'')], [(0, ''e9'')])
     = ([(1, ''e7''), (2, ''e9'')], [])"
  by (simp add: setup_contrast_data_def remove_overlap_def frame_index_def drop_labels_def
      example_defs run_defs)

text \<open>
  The call of \<^verbatim>\<open>main_effect\<close> in \<^verbatim>\<open>run_contrast_analysis\<close> binds; the one in
  \<^verbatim>\<open>run_balanced_contrast\<close> names two parameters that \<^verbatim>\<open>main_effect\<close> does not
  have, so the prerequisite step raises whenever the subsampled map is missing.
\<close>

lemma contrast_prerequisite_binds:
  "bind_arguments main_effect_parameters 3 3
     [''tfce_enabled'', ''cutoff_predict_enabled'', ''bin_steps'',
      ''cluster_forming_threshold'', ''monte_carlo_iterations'', ''nprocesses''] = Inr ()"
  by (simp add: bind_arguments_def main_effect_parameters_def)

lemma probabilistic_ale_binds:
  "bind_arguments probabilistic_ale_parameters 3 3
     [''target_n'', ''monte_carlo_iterations'', ''sample_n'', ''nprocesses''] = Inr ()"
  by (simp add: bind_arguments_def probabilistic_ale_parameters_def)

lemma subsampling_prerequisite_raises:
  "subsampling_prerequisite c project_path ps target_n meta_name exp_df w =
     (if path_exists w (joinpath project_path
                          (''Results/MainEffect/Volumes/'' @ meta_name @ ''_sub_ale_''
                             @ str_int target_n @ ''.nii''))
      then Inr w else Inl TypeError)"
  by (simp add: subsampling_prerequisite_def bind_arguments_def main_effect_parameters_def
      then_do_def)

text \<open>
  C3. A balanced contrast requested in a project that holds no result yet: the automatic
  prerequisite call raises \<^verbatim>\<open>TypeError\<close>, and so does \<^verbatim>\<open>run_balanced_contrast\<close>.
\<close>

theorem run_balanced_contrast_type_error:
  "run_balanced_contrast example_collaborators (analysis_table ''B'') 0 ''/proj'' example_params
     example_experiments fresh_project = Inl TypeError"
  by (simp add: run_balanced_contrast_def setup_contrast_data_def determine_target_n_def
      subsampling_prerequisite_def bind_arguments_def main_effect_parameters_def
      str_int_def str_nat.simps example_defs run_defs)

text \<open>
  C5, as stated. A probabilistic row whose type code is \<^verbatim>\<open>P\<close>, without a size: the
  function returns normally, with a warning in the log.
\<close>

theorem run_probabilistic_ale_warns_and_returns:
  "run_probabilistic_ale example_collaborators (analysis_table ''P'') 0 ''/proj'' example_params
     example_experiments fresh_project
   = Inr (logger WARNING ''A: Need to specify subsampling N''
            (logger INFO ''Running Probabilistic ALE'' fresh_project))"
  by (simp add: run_probabilistic_ale_def parse_target_n_def format_target_n_def
      example_defs run_defs)

text \<open>
  C5, amended. When the type code of a probabilistic row holds no subsampling size (it has
  one character) and the experiments of the row can be selected, the condition is not
  fatal: \<^verbatim>\<open>run_probabilistic_ale\<close> returns normally, having logged the warning that the
  subsampling N must be specified (or, if the file \<^verbatim>\<open>_sub_ale_None.nii\<close> of the row is
  there, that results already exist); it writes no file and does not call
  \<^verbatim>\<open>probabilistic_ale\<close>.
\<close>

theorem run_probabilistic_ale_without_size:
  assumes "iloc analysis_df row_idx = Inr row"
    and "row_type row = Some code" and "length code \<le> 1"
    and "select_experiments c exp_all_df (row_conditions row) = Inr exp_df"
  shows "run_probabilistic_ale c analysis_df row_idx project_path ps exp_all_df w =
           Inr (if path_exists w (joinpath project_path
                                    (''Results/Probabilistic/Volumes/'' @ row_name row
                                       @ ''_sub_ale_None.nii''))
                then logger INFO (''Probabilistic ALE results for '' @ row_name row
                                    @ '' already exist.'') w
                else logger WARNING (row_name row @ '': Need to specify subsampling N'')
                       (logger INFO ''Running Probabilistic ALE'' w))"
  using assms
  by (simp add: run_probabilistic_ale_def parse_target_n_def format_target_n_def then_do_def
      Let_def)

theorem run_probabilistic_ale_without_size_witness:
  "iloc (analysis_table ''P'') 0
     = Inr \<lparr>row_type = Some ''P'', row_name = ''A'', row_conditions = [''faces'']\<rparr>
   \<and> length ''P'' \<le> 1
   \<and> select_experiments example_collaborators example_experiments [''faces'']
     = Inr [(0, ''e5''), (1, ''e7''), (2, ''e9'')]
   \<and> run_probabilistic_ale example_collaborators (analysis_table ''P'') 0 ''/proj'' example_params
       example_experiments
       (write_file ''/proj/Results/Probabilistic/Volumes/A_sub_ale_None.nii'' Data fresh_project)
     = Inr (logger INFO ''Probabilistic ALE results for A already exist.''
              (write_file ''/proj/Results/Probabilistic/Volumes/A_sub_ale_None.nii'' Data
                 fresh_project))"
proof -
  have row: "iloc (analysis_table ''P'') 0
     = Inr \<lparr>row_type = Some ''P'', row_name = ''A'', row_conditions = [''faces'']\<rparr>"
    by (simp add: iloc_def analysis_table_def)
  have sel: "select_experiments example_collaborators example_experiments
               (row_conditions \<lparr>row_type = Some ''P'', row_name = ''A'', row_conditions = [''faces'']\<rparr>)
     = Inr [(0, ''e5''), (1, ''e7''), (2, ''e9'')]"
    by (simp add: example_defs run_defs)
  have len: "length ''P'' \<le> 1" by simp
  from run_probabilistic_ale_without_size [OF row _ len sel, of "''/proj''" example_params
      "write_file ''/proj/Results/Probabilistic/Volumes/A_sub_ale_None.nii'' Data fresh_project"]
  show ?thesis using row sel
    by (simp add: path_exists_def write_file_def joinpath_def)
qed

text \<open>
  The null vectors of \<^verbatim>\<open>main_effect\<close> are memoized: the path that is checked and read
  is the path that is written, so a second call finds the vectors of the first.
\<close>

lemma simulate_null_Inr:
  assumes "simulate_null c exp_df tfce_enabled target_n n = Inr (v, cl, t)"
  shows "0 < n \<and> length v = nat n \<and> length cl = nat n \<and> length t = nat n
         \<and> v = map (\<lambda>i. fst (compute_monte_carlo_null c exp_df tfce_enabled target_n i)) [0 ..< nat n]
         \<and> cl = map (\<lambda>i. fst (snd (compute_monte_carlo_null c exp_df tfce_enabled target_n i))) [0 ..< nat n]
         \<and> t = map (\<lambda>i. snd (snd (compute_monte_carlo_null c exp_df tfce_enabled target_n i))) [0 ..< nat n]"
  using assms by (auto simp: simulate_null_def Let_def split: if_splits)

lemma monte_carlo_null_memoized:
  assumes "monte_carlo_null c project_path exp_df meta_name tfce_enabled n w = Inr (nulls, w1)"
  shows "monte_carlo_null c project_path exp_df' meta_name tfce_enabled' n' w1
           = Inr (nulls, logger INFO (meta_name @ '' - loading null'') w1)"
proof -
  define p where "p = joinpath project_path
                          (''Full/NullDistributions/'' @ meta_name @ ''_montecarlo.pickle'')"
  obtain v cl t where n: "nulls = (v, cl, t)" by (cases nulls) auto
  show ?thesis
  proof (cases "path_exists w p")
    case True
    with assms obtain held where h: "pickle_load w p = Inr held" "unpack3 held = Inr nulls"
      and w1: "w1 = logger INFO (meta_name @ '' - loading null'') w"
      unfolding monte_carlo_null_def Let_def p_def [symmetric] then_do_def
      by (auto split: sum.splits prod.splits)
    have "path_exists w1 p" "pickle_load w1 p = Inr held"
      using True h unfolding w1 by (simp_all add: path_exists_def pickle_load_def logger_def)
    then show ?thesis
      unfolding monte_carlo_null_def Let_def p_def [symmetric] then_do_def
      using h n by simp
  next
    case False
    with assms have s: "simulate_null c exp_df tfce_enabled None n = Inr (v, cl, t)"
      and w1: "w1 = write_file p (MonteCarlo v cl t)
                      (logger INFO (meta_name @ '' - simulating null'') w)"
      unfolding monte_carlo_null_def Let_def p_def [symmetric] then_do_def n
      by (auto split: sum.splits prod.splits)
    have "path_exists w1 p" "pickle_load w1 p = Inr (MonteCarlo v cl t)"
      unfolding w1 by (simp_all add: path_exists_def pickle_load_def write_file_def)
    then show ?thesis
      unfolding monte_carlo_null_def Let_def p_def [symmetric] then_do_def
      using n by (simp add: unpack3_def)
  qed
qed

text \<open>
  C2. \<^verbatim>\<open>probabilistic_ale\<close> run twice for the name \<^verbatim>\<open>A\<close> and the size 5 in a fresh
  project. The first run writes the null vector below \<^verbatim>\<open>CV/NullDistributions\<close>; the
  path it checks lies below \<^verbatim>\<open>CV/CV/NullDistributions\<close> and does not exist afterwards,
  so the second run computes the cluster cut-off again.
\<close>

theorem probabilistic_ale_recomputes_null:
  "map_sum id
     (\<lambda>w. (path_exists w ''/proj/Results/MainEffect/CV/NullDistributions/A_montecarlo_5.pickle'',
           path_exists w ''/proj/Results/MainEffect/CV/CV/NullDistributions/A_montecarlo_5.pickle''))
     (probabilistic_ale example_collaborators ''/proj'' example_experiments ''A'' 3 (Some 5)
        fresh_project)
   = Inr (True, False)
   \<and> map_sum id logged
       (then_do (probabilistic_ale example_collaborators ''/proj'' example_experiments ''A'' 3
                   (Some 5) fresh_project)
          (probabilistic_ale example_collaborators ''/proj'' example_experiments ''A'' 3 (Some 5)))
   = Inr [(INFO, ''A - entering probabilistic ALE routine.''),
          (INFO, ''A - computing cv cluster cut-off.''),
          (INFO, ''A - computing cv ale.''),
          (INFO, ''A - probabilistic ALE done!''),
          (INFO, ''A - entering probabilistic ALE routine.''),
          (INFO, ''A - computing cv cluster cut-off.''),
          (INFO, ''A - loading cv ale'')]"
  by code_simp

lemma monte_carlo_null_vectors:
  assumes "monte_carlo_null c project_path exp_df meta_name tfce_enabled n w
             = Inr ((vfwe_null, cfwe_null, tfce_null), w1)"
  shows "(case files w (joinpath project_path
                          (''Full/NullDistributions/'' @ meta_name @ ''_montecarlo.pickle'')) of
            Some held \<Rightarrow> unpack3 held = Inr (vfwe_null, cfwe_null, tfce_null)
          | None \<Rightarrow>
              (vfwe_null, cfwe_null, tfce_null) =
                (map (\<lambda>i. fst (compute_monte_carlo_null c exp_df tfce_enabled None i))
                     [0 ..< nat n],
                 map (\<lambda>i. fst (snd (compute_monte_carlo_null c exp_df tfce_enabled None i)))
                     [0 ..< nat n],
                 map (\<lambda>i. snd (snd (compute_monte_carlo_null c exp_df tfce_enabled None i)))
                     [0 ..< nat n]))"
proof (cases "files w (joinpath project_path
                         (''Full/NullDistributions/'' @ meta_name @ ''_montecarlo.pickle''))")
  case None
  with assms have "simulate_null c exp_df tfce_enabled None n
                     = Inr (vfwe_null, cfwe_null, tfce_null)"
    by (auto simp: monte_carlo_null_def Let_def then_do_def path_exists_def
        split: sum.splits prod.splits)
  from simulate_null_Inr [OF this] None show ?thesis by simp
next
  case (Some held)
  with assms show ?thesis
    by (auto simp: monte_carlo_null_def Let_def path_exists_def then_do_def pickle_load_def
        split: sum.splits prod.splits content.splits)
qed

lemma linear_percentile_examples:
  "linear_percentile [0, 1, 2] 95 = 19 / 10"
  "linear_percentile [0, 2, 4] 95 = 19 / 5"
  "linear_percentile [0, 3, 6] 95 = 57 / 10"
  by code_simp+

text \<open>
  C6, as stated. \<^verbatim>\<open>main_effect\<close> computes its thresholds for the name \<^verbatim>\<open>A\<close> with
  three iterations and then, in the project the first call left, with five. The pickle of
  the first call is found under the name, so the thresholds of the second call are again
  19/10, 19/5 and 57/10, the percentiles of the three-iteration vectors; the vectors
  collected across five iterations have the percentiles 19/5, 38/5 and 57/5.
\<close>

theorem corrected_thresholds_stale_cache:
  "corrected_thresholds example_collaborators ''/proj/Results/MainEffect'' example_experiments
     ''A'' True False 3 fresh_project
   = Inr ((19 / 10, 19 / 5, 57 / 10),
          write_file ''/proj/Results/MainEffect/Full/NullDistributions/A_montecarlo.pickle''
            (MonteCarlo [0, 1, 2] [0, 2, 4] [0, 3, 6])
            (logger INFO ''A - simulating null'' fresh_project))
   \<and> corrected_thresholds example_collaborators ''/proj/Results/MainEffect'' example_experiments
       ''A'' True False 5
       (write_file ''/proj/Results/MainEffect/Full/NullDistributions/A_montecarlo.pickle''
          (MonteCarlo [0, 1, 2] [0, 2, 4] [0, 3, 6])
          (logger INFO ''A - simulating null'' fresh_project))
     = Inr ((19 / 10, 19 / 5, 57 / 10),
            logger INFO ''A - loading null''
              (write_file ''/proj/Results/MainEffect/Full/NullDistributions/A_montecarlo.pickle''
                 (MonteCarlo [0, 1, 2] [0, 2, 4] [0, 3, 6])
                 (logger INFO ''A - simulating null'' fresh_project)))
   \<and> simulate_null example_collaborators example_experiments True None 5
     = Inr ([0, 1, 2, 3, 4], [0, 2, 4, 6, 8], [0, 3, 6, 9, 12])
   \<and> percentile example_collaborators [0, 1, 2, 3, 4] 95 = 19 / 5
   \<and> percentile example_collaborators [0, 2, 4, 6, 8] 95 = 38 / 5
   \<and> percentile example_collaborators [0, 3, 6, 9, 12] 95 = 57 / 5"
proof -
  have first: "corrected_thresholds example_collaborators ''/proj/Results/MainEffect''
     example_experiments ''A'' True False 3 fresh_project
   = Inr ((19 / 10, 19 / 5, 57 / 10),
          write_file ''/proj/Results/MainEffect/Full/NullDistributions/A_montecarlo.pickle''
            (MonteCarlo [0, 1, 2] [0, 2, 4] [0, 3, 6])
            (logger INFO ''A - simulating null'' fresh_project))"
    by (simp add: corrected_thresholds_def monte_carlo_null_def simulate_null_def then_do_def
        joinpath_def path_exists_def fresh_project_def example_collaborators_def
        linear_percentile_examples numeral_3_eq_3 Let_def)
  have second: "corrected_thresholds example_collaborators ''/proj/Results/MainEffect''
       example_experiments ''A'' True False 5
       (write_file ''/proj/Results/MainEffect/Full/NullDistributions/A_montecarlo.pickle''
          (MonteCarlo [0, 1, 2] [0, 2, 4] [0, 3, 6])
          (logger INFO ''A - simulating null'' fresh_project))
     = Inr ((19 / 10, 19 / 5, 57 / 10),
            logger INFO ''A - loading null''
              (write_file ''/proj/Results/MainEffect/Full/NullDistributions/A_montecarlo.pickle''
                 (MonteCarlo [0, 1, 2] [0, 2, 4] [0, 3, 6])
                 (logger INFO ''A - simulating null'' fresh_project)))"
    by (simp add: corrected_thresholds_def monte_carlo_null_def then_do_def pickle_load_def
        unpack3_def joinpath_def path_exists_def write_file_def example_collaborators_def
        linear_percentile_examples Let_def)
  have sim: "simulate_null example_collaborators example_experiments True None 5
     = Inr ([0, 1, 2, 3, 4], [0, 2, 4, 6, 8], [0, 3, 6, 9, 12])"
    by code_simp
  have perc: "percentile example_collaborators [0, 1, 2, 3, 4] 95 = 19 / 5"
    "percentile example_collaborators [0, 2, 4, 6, 8] 95 = 38 / 5"
    "percentile example_collaborators [0, 3, 6, 9, 12] 95 = 57 / 5"
    by code_simp+
  from first second sim perc show ?thesis by blast
qed

text \<open>
  C6, amended. With cutoff prediction disabled, the three thresholds of
  \<^verbatim>\<open>main_effect\<close> are the 95th percentiles of the three Monte Carlo null vectors, and
  these vectors are: if the pickle \<^verbatim>\<open>Full/NullDistributions/<name>_montecarlo.pickle\<close>
  exists, the three entries unpacked from it, whatever call and whatever number of
  iterations wrote them; otherwise the maxima of voxel value, cluster mass and TFCE value
  collected across the \<^verbatim>\<open>monte_carlo_iterations\<close> simulated iterations, one entry per
  iteration.
\<close>

theorem corrected_thresholds_percentile:
  assumes "\<not> cutoff_predict_enabled"
    and "corrected_thresholds c project_path exp_df meta_name tfce_enabled cutoff_predict_enabled
           monte_carlo_iterations w = Inr ((vfwe_treshold, cfwe_threshold, tfce_threshold), w1)"
  shows "\<exists>vfwe_null cfwe_null tfce_null.
           vfwe_treshold = percentile c vfwe_null 95
         \<and> cfwe_threshold = percentile c cfwe_null 95
         \<and> tfce_threshold = percentile c tfce_null 95
         \<and> (case files w (joinpath project_path
                             (''Full/NullDistributions/'' @ meta_name @ ''_montecarlo.pickle'')) of
               Some held \<Rightarrow> unpack3 held = Inr (vfwe_null, cfwe_null, tfce_null)
             | None \<Rightarrow>
                 (vfwe_null, cfwe_null, tfce_null) =
                   (map (\<lambda>i. fst (compute_monte_carlo_null c exp_df tfce_enabled None i))
                        [0 ..< nat monte_carlo_iterations],
                    map (\<lambda>i. fst (snd (compute_monte_carlo_null c exp_df tfce_enabled None i)))
                        [0 ..< nat monte_carlo_iterations],
                    map (\<lambda>i. snd (snd (compute_monte_carlo_null c exp_df tfce_enabled None i)))
                        [0 ..< nat monte_carlo_iterations]))"
proof -
  from assms obtain vfwe_null cfwe_null tfce_null where
    mc: "monte_carlo_null c project_path exp_df meta_name tfce_enabled monte_carlo_iterations w
           = Inr ((vfwe_null, cfwe_null, tfce_null), w1)"
    and th: "vfwe_treshold = percentile c vfwe_null 95" "cfwe_threshold = percentile c cfwe_null 95"
      "tfce_threshold = percentile c tfce_null 95"
    by (auto simp: corrected_thresholds_def then_do_def split: sum.splits prod.splits)
  from monte_carlo_null_vectors [OF mc] th show ?thesis by blast
qed

theorem corrected_thresholds_percentile_witness:
  "\<not> False
   \<and> corrected_thresholds example_collaborators ''/proj/Results/MainEffect'' example_experiments
        ''A'' True False 3 fresh_project
     = Inr ((19 / 10, 19 / 5, 57 / 10),
            write_file ''/proj/Results/MainEffect/Full/NullDistributions/A_montecarlo.pickle''
              (MonteCarlo [0, 1, 2] [0, 2, 4] [0, 3, 6])
              (logger INFO ''A - simulating null'' fresh_project))
   \<and> (\<exists>vfwe_null cfwe_null tfce_null.
         19 / 10 = percentile example_collaborators vfwe_null 95
       \<and> 19 / 5 = percentile example_collaborators cfwe_null 95
       \<and> 57 / 10 = percentile example_collaborators tfce_null 95)"
proof -
  have run: "corrected_thresholds example_collaborators ''/proj/Results/MainEffect''
        example_experiments ''A'' True False 3 fresh_project
     = Inr ((19 / 10, 19 / 5, 57 / 10),
            write_file ''/proj/Results/MainEffect/Full/NullDistributions/A_montecarlo.pickle''
              (MonteCarlo [0, 1, 2] [0, 2, 4] [0, 3, 6])
              (logger INFO ''A - simulating null'' fresh_project))"
    by (simp add: corrected_thresholds_def monte_carlo_null_def simulate_null_def then_do_def
        joinpath_def path_exists_def fresh_project_def example_collaborators_def
        linear_percentile_examples numeral_3_eq_3 Let_def)
  have off: "\<not> False" by simp
  from corrected_thresholds_percentile [OF off run] run show ?thesis by blast
qed

text \<open>
  C7. \<^verbatim>\<open>run_main_effect\<close> run twice for the name \<^verbatim>\<open>A\<close> in a fresh project. The
  first run writes \<^verbatim>\<open>Results/MainEffect/Full/Volumes/A_cFWE05.nii\<close>; the path that
  \<^verbatim>\<open>run_main_effect\<close> checks, \<^verbatim>\<open>Results/MainEffect/Volumes/A_cFWE.nii\<close>, does not
  exist afterwards, so the second run starts the analysis again.
\<close>

theorem run_main_effect_not_idempotent:
  "map_sum id
     (\<lambda>w. (path_exists w ''/proj/Results/MainEffect/Volumes/A_cFWE.nii'',
           path_exists w ''/proj/Results/MainEffect/Full/Volumes/A_cFWE05.nii''))
     (run_main_effect example_collaborators (analysis_table ''M'') 0 ''/proj'' example_params
        example_experiments fresh_project)
   = Inr (False, True)
   \<and> map_sum id (\<lambda>w. (logged w, calls w))
       (then_do (run_main_effect example_collaborators (analysis_table ''M'') 0 ''/proj''
                   example_params example_experiments fresh_project)
          (run_main_effect example_collaborators (analysis_table ''M'') 0 ''/proj'' example_params
             example_experiments))
   = Inr ([(INFO, ''Running Main-Effect Analysis''),
           (INFO, ''A - illustrate Foci''),
           (INFO, ''A - computing ALE and null PDF''),
           (INFO, ''A - computing p-values & TFCE''),
           (INFO, ''A - simulating null''),
           (INFO, ''A - inference and printing''),
           (INFO, ''Running Main-Effect Analysis''),
           (INFO, ''A - illustrate Foci''),
           (INFO, ''A - computing ALE and null PDF''),
           (INFO, ''A - loading z-values & TFCE''),
           (INFO, ''A - loading null''),
           (INFO, ''A - inference and printing'')],
          [Contribution ''A'', Contribution ''A''])"
  by code_simp


text \<open>
  C10. When the type-code cell of a balanced-contrast row has length 1, the target size is
  \<open>min (floor ((min n1 n2 + 17) / 2)) (min n1 n2 - 2)\<close> for pools of sizes \<open>n1\<close>
  and \<open>n2\<close>; it is at most \<open>min n1 n2 - 2\<close>, hence strictly below the smaller pool.
\<close>

theorem determine_target_n_default:
  assumes "length row_value = 1"
  shows "\<exists>t. determine_target_n row_value (p1, p2) = Inr t
           \<and> t = min ((min (int (length p1)) (int (length p2)) + 17) div 2)
                     (min (int (length p1)) (int (length p2)) - 2)
           \<and> t \<le> min (int (length p1)) (int (length p2)) - 2
           \<and> t < min (int (length p1)) (int (length p2))"
proof -
  define m where "m = min (int (length p1)) (int (length p2))"
  have run: "determine_target_n row_value (p1, p2) = Inr (min ((m + 17) div 2) (m - 2))"
    using assms by (simp add: determine_target_n_def Let_def m_def)
  have "min ((m + 17) div 2) (m - 2) \<le> m - 2"
    by (rule min.cobounded2)
  then show ?thesis
    using run unfolding m_def [symmetric] by simp
qed

theorem determine_target_n_default_witness:
  "length ''B'' = 1 \<and> determine_target_n ''B'' ([1, 2, 3, 4, 5 :: nat], [1, 2, 3 :: nat]) = Inr 1"
  using determine_target_n_default [of "''B''" "[1, 2, 3, 4, 5 :: nat]" "[1, 2, 3 :: nat]"]
  by simp

subsection \<open>The files an analysis writes\<close>

text \<open>
  Paths are told apart by how they end: the file names written by \<^verbatim>\<open>main_effect\<close>
  and \<^verbatim>\<open>probabilistic_ale\<close> end with the name of the meta-analysis followed by a
  fixed suffix.
\<close>

lemma endswith_iff: "endswith s suf \<longleftrightarrow> (\<exists>pre. s = pre @ suf)"
proof
  assume "endswith s suf"
  then have "s = take (length s - length suf) s @ suf"
    by (metis append_take_drop_id endswith_def)
  then show "\<exists>pre. s = pre @ suf" ..
next
  assume "\<exists>pre. s = pre @ suf"
  then show "endswith s suf" by (auto simp: endswith_def)
qed

lemma endswith_append: "endswith b suf \<Longrightarrow> endswith (a @ b) suf"
  unfolding endswith_iff by (metis append.assoc)

lemma endswith_joinpath: "endswith s suf \<Longrightarrow> suf \<noteq> [] \<Longrightarrow> endswith (joinpath p s) suf"
proof -
  assume e: "endswith s suf" and n: "suf \<noteq> []"
  then obtain pre where s: "s = pre @ suf" unfolding endswith_iff by blast
  with n have "s \<noteq> []" by simp
  then obtain c cs where cs: "s = c # cs" by (cases s) auto
  have "joinpath p s = s \<or> joinpath p s = (p @ ''/'') @ s"
    unfolding cs by (simp add: joinpath_def)
  then show ?thesis using e endswith_append by metis
qed

lemma endswith_snoc: "endswith a s \<Longrightarrow> endswith (a @ t) (s @ t)"
  unfolding endswith_iff by auto

lemma endswith_differ:
  "endswith a s \<Longrightarrow> endswith b t \<Longrightarrow> length s = length t \<Longrightarrow> s \<noteq> t \<Longrightarrow> a \<noteq> b"
  unfolding endswith_iff by auto

lemma files_logger [simp]: "files (logger l msg w) = files w"
  by (simp add: logger_def)

lemma endswith_last: "endswith a s \<Longrightarrow> s \<noteq> [] \<Longrightarrow> last a = last s"
  unfolding endswith_iff by auto

lemma not_endswith:
  "endswith a s \<Longrightarrow> s \<noteq> [] \<Longrightarrow> t \<noteq> [] \<Longrightarrow> last s \<noteq> last t \<Longrightarrow> \<not> endswith a t"
  using endswith_last by metis

lemma write_elsewhere:
  "endswith p s \<Longrightarrow> endswith q t \<Longrightarrow> length s = length t \<Longrightarrow> s \<noteq> t
     \<Longrightarrow> files (write_file p c w) q = files w q"
  using endswith_differ [of p s q t] by (auto simp: write_file_def)

lemma checked_suffix:
  "endswith (joinpath project_path (''Results/MainEffect/Volumes/'' @ meta_name @ ''_cFWE.nii'')) ''E.nii''"
  by (intro endswith_joinpath endswith_append) (simp_all add: endswith_def)

lemma save_inputs_elsewhere:
  assumes q: "endswith q t" and t: "length t = 5" "t \<noteq> ''s.npy''" "t \<noteq> ''a.npz''" "t \<noteq> ''s.csv''"
  shows "files (save_inputs pp m w) q = files w q"
proof -
  define k where "k = joinpath pp (m @ ''_kernels'')"
  define a where "a = joinpath pp (m @ ''_ma'')"
  define e where "e = joinpath pp (m @ ''_included_experiments.csv'')"
  have ks: "endswith k ''s''" unfolding k_def
    by (intro endswith_joinpath endswith_append) (simp_all add: endswith_def)
  have k1: "\<not> endswith k ''.npy''"
    by (rule not_endswith [OF ks]) simp_all
  have k2: "endswith (k @ ''.npy'') ''s.npy''"
    using endswith_snoc [OF ks, of "''.npy''"] by simp
  have aa: "endswith a ''a''" unfolding a_def
    by (intro endswith_joinpath endswith_append) (simp_all add: endswith_def)
  have a1: "\<not> endswith a ''.npz''"
    by (rule not_endswith [OF aa]) simp_all
  have a2: "endswith (a @ ''.npz'') ''a.npz''"
    using endswith_snoc [OF aa, of "''.npz''"] by simp
  have cs: "endswith e ''s.csv''" unfolding e_def
    by (intro endswith_joinpath endswith_append) (simp_all add: endswith_def)
  have "files (write_file (k @ ''.npy'') Data w) q = files w q" for w
    using t by (intro write_elsewhere [OF k2 q]) auto
  moreover have "files (write_file (a @ ''.npz'') Data w) q = files w q" for w
    using t by (intro write_elsewhere [OF a2 q]) auto
  moreover have "files (write_file e Data w) q = files w q" for w
    using t by (intro write_elsewhere [OF cs q]) auto
  ultimately show ?thesis
    unfolding save_inputs_def np_save_def np_savez_compressed_def
      k_def [symmetric] a_def [symmetric] e_def [symmetric]
    by (simp add: k1 a1)
qed

lemma plot_and_save_elsewhere:
  "endswith p s \<Longrightarrow> endswith q t \<Longrightarrow> length s = length t \<Longrightarrow> s \<noteq> t
     \<Longrightarrow> files (plot_and_save p w) q = files w q"
  unfolding plot_and_save_def by (rule write_elsewhere)

lemma volume_suffix:
  "endswith suf t \<Longrightarrow> t \<noteq> [] \<Longrightarrow> endswith (joinpath pp (dir @ m @ suf)) t"
  by (intro endswith_joinpath endswith_append)

lemma foci_illustration_elsewhere:
  assumes q: "endswith q ''E.nii''"
  shows "files (foci_illustration pp m w) q = files w q"
proof -
  define p where "p = joinpath pp (''Full/Volumes/'' @ m @ ''_foci.nii'')"
  have e: "endswith p ''i.nii''" unfolding p_def
    by (rule volume_suffix) (simp_all add: endswith_def)
  show ?thesis unfolding foci_illustration_def p_def [symmetric]
    by (simp add: plot_and_save_elsewhere [OF e q])
qed

lemma ale_calculation_elsewhere:
  assumes q: "endswith q ''E.nii''" and r: "ale_calculation pp m w = Inr w1"
  shows "files w1 q = files w q"
proof -
  define p where "p = joinpath pp (''Full/Volumes/'' @ m @ ''_ale.nii'')"
  define h where "h = joinpath pp (''Full/NullDistributions/'' @ m @ ''_histogram.pickle'')"
  have e: "endswith p ''e.nii''" unfolding p_def
    by (rule volume_suffix) (simp_all add: endswith_def)
  have eh: "endswith h ''ickle''" unfolding h_def
    by (rule volume_suffix) (simp_all add: endswith_def)
  from r show ?thesis
    unfolding ale_calculation_def Let_def then_do_def p_def [symmetric] h_def [symmetric]
    by (auto simp: plot_and_save_elsewhere [OF e q] write_elsewhere [OF eh q]
        split: if_splits sum.splits)
qed

lemma z_calculation_elsewhere:
  assumes q: "endswith q ''E.nii''"
  shows "files (z_calculation pp m w) q = files w q"
proof -
  define p where "p = joinpath pp (''Full/Volumes/'' @ m @ ''_z.nii'')"
  have e: "endswith p ''z.nii''" unfolding p_def
    by (rule volume_suffix) (simp_all add: endswith_def)
  show ?thesis unfolding z_calculation_def p_def [symmetric]
    by (simp add: plot_and_save_elsewhere [OF e q])
qed

lemma tfce_calculation_elsewhere:
  assumes q: "endswith q ''E.nii''"
  shows "files (tfce_calculation pp m tfce w) q = files w q"
proof -
  define p where "p = joinpath pp (''Full/Volumes/'' @ m @ ''_tfce_uncorrected.nii'')"
  have e: "endswith p ''d.nii''" unfolding p_def
    by (rule volume_suffix) (simp_all add: endswith_def)
  show ?thesis unfolding tfce_calculation_def p_def [symmetric]
    by (simp add: plot_and_save_elsewhere [OF e q])
qed

lemma corrected_thresholds_elsewhere:
  assumes q: "endswith q ''E.nii''"
    and r: "corrected_thresholds c pp df m tfce cp n w = Inr (cutoffs, w1)"
  shows "files w1 q = files w q"
proof -
  define p where "p = joinpath pp (''Full/NullDistributions/'' @ m @ ''_montecarlo.pickle'')"
  have e: "endswith p ''ickle''" unfolding p_def
    by (rule volume_suffix) (simp_all add: endswith_def)
  from r show ?thesis
    unfolding corrected_thresholds_def monte_carlo_null_def Let_def then_do_def p_def [symmetric]
    by (auto simp: write_elsewhere [OF e q]
        split: if_splits sum.splits option.splits content.splits prod.splits)
qed

lemma inference_elsewhere:
  assumes q: "endswith q ''E.nii''"
  shows "files (inference pp m tfce w) q = files w q"
proof -
  define v where "v = joinpath pp (''Full/Volumes/'' @ m @ ''_vFWE05.nii'')"
  define cl where "cl = joinpath pp (''Full/Volumes/'' @ m @ ''_cFWE05.nii'')"
  define t where "t = joinpath pp (''Full/Volumes/'' @ m @ ''_TFCE05.nii'')"
  have ev: "endswith v ''5.nii''" unfolding v_def
    by (rule volume_suffix) (simp_all add: endswith_def)
  have ecl: "endswith cl ''5.nii''" unfolding cl_def
    by (rule volume_suffix) (simp_all add: endswith_def)
  have et: "endswith t ''5.nii''" unfolding t_def
    by (rule volume_suffix) (simp_all add: endswith_def)
  show ?thesis unfolding inference_def Let_def v_def [symmetric] cl_def [symmetric] t_def [symmetric]
    by (simp add: plot_and_save_elsewhere [OF ev q] plot_and_save_elsewhere [OF ecl q]
        plot_and_save_elsewhere [OF et q])
qed

lemma main_effect_elsewhere:
  assumes q: "endswith q ''E.nii''"
    and r: "main_effect c project_path exp_df meta_name tfce cp n w = Inr w1"
  shows "files w1 q = files w q"
proof -
  let ?pp = "joinpath project_path ''Results/MainEffect''"
  from r obtain wa cutoffs wb where
    a: "ale_calculation ?pp meta_name
          (foci_illustration ?pp meta_name (save_inputs ?pp meta_name w)) = Inr wa"
    and b: "corrected_thresholds c ?pp exp_df meta_name tfce cp n
              (tfce_calculation ?pp meta_name tfce (z_calculation ?pp meta_name wa))
            = Inr (cutoffs, wb)"
    and w1: "w1 = inference ?pp meta_name tfce wb"
    unfolding main_effect_def Let_def then_do_def
    by (auto split: sum.splits prod.splits)
  show ?thesis
    unfolding w1 inference_elsewhere [OF q] corrected_thresholds_elsewhere [OF q b]
      tfce_calculation_elsewhere [OF q] z_calculation_elsewhere [OF q]
      ale_calculation_elsewhere [OF q a] foci_illustration_elsewhere [OF q]
      save_inputs_elsewhere [OF q, simplified] ..
qed

text \<open>
  Whatever the project, the name and the switches: the path that \<^verbatim>\<open>run_main_effect\<close>
  checks is not among the files that \<^verbatim>\<open>main_effect\<close> writes.
\<close>

lemma main_effect_never_writes_checked_path:
  assumes "main_effect c project_path exp_df meta_name tfce cp n w = Inr w1"
  shows "path_exists w1 (joinpath project_path
                           (''Results/MainEffect/Volumes/'' @ meta_name @ ''_cFWE.nii''))
         = path_exists w (joinpath project_path
                            (''Results/MainEffect/Volumes/'' @ meta_name @ ''_cFWE.nii''))"
  unfolding path_exists_def main_effect_elsewhere [OF checked_suffix assms] ..

lemma null_paths_differ:
  "joinpath pp (''CV/NullDistributions/'' @ rest) \<noteq> joinpath pp (''NullDistributions/'' @ rest)"
  by (simp add: joinpath_def)

lemma cv_cluster_cutoff_elsewhere:
  assumes r: "cv_cluster_cutoff c pp df m n t w = Inr w1"
  shows "files w1 (joinpath pp (''CV/NullDistributions/'' @ m @ ''_montecarlo_''
                                  @ format_target_n t @ ''.pickle''))
         = files w (joinpath pp (''CV/NullDistributions/'' @ m @ ''_montecarlo_''
                                   @ format_target_n t @ ''.pickle''))"
proof -
  define chk where "chk = joinpath pp (''CV/NullDistributions/'' @ m @ ''_montecarlo_''
                                  @ format_target_n t @ ''.pickle'')"
  define wr where "wr = joinpath pp (''NullDistributions/'' @ m @ ''_montecarlo_''
                                  @ format_target_n t @ ''.pickle'')"
  have ne: "chk \<noteq> wr" unfolding chk_def wr_def by (rule null_paths_differ)
  from r show ?thesis
    unfolding cv_cluster_cutoff_def then_do_def chk_def [symmetric] wr_def [symmetric]
    using ne by (auto simp: write_file_def split: if_splits sum.splits prod.splits)
qed

lemma cv_ale_elsewhere:
  assumes q: "endswith q ''ckle''"
  shows "files (cv_ale pp m t w) q = files w q"
proof -
  define p where "p = joinpath pp (''Volumes/'' @ m @ ''_sub_ale_'' @ format_target_n t @ ''.nii'')"
  have e: "endswith p ''.nii''" unfolding p_def
    by (intro endswith_joinpath endswith_append) (simp_all add: endswith_def)
  show ?thesis unfolding cv_ale_def p_def [symmetric]
    by (simp add: plot_and_save_elsewhere [OF e q])
qed

text \<open>
  Likewise, \<^verbatim>\<open>probabilistic_ale\<close> never writes the pickle whose existence it checks.
\<close>

lemma probabilistic_ale_never_writes_checked_path:
  assumes r: "probabilistic_ale c project_path exp_df meta_name n target_n w = Inr w1"
  shows "path_exists w1 (joinpath (joinpath project_path ''Results/MainEffect/CV'')
                           (''CV/NullDistributions/'' @ meta_name @ ''_montecarlo_''
                              @ format_target_n target_n @ ''.pickle''))
         = path_exists w (joinpath (joinpath project_path ''Results/MainEffect/CV'')
                            (''CV/NullDistributions/'' @ meta_name @ ''_montecarlo_''
                               @ format_target_n target_n @ ''.pickle''))"
proof -
  let ?pp = "joinpath project_path ''Results/MainEffect/CV''"
  define chk where "chk = joinpath ?pp (''CV/NullDistributions/'' @ meta_name @ ''_montecarlo_''
                              @ format_target_n target_n @ ''.pickle'')"
  have q5: "endswith chk ''ickle''" unfolding chk_def
    by (intro endswith_joinpath endswith_append) (simp_all add: endswith_def)
  have q4: "endswith chk ''ckle''" unfolding chk_def
    by (intro endswith_joinpath endswith_append) (simp_all add: endswith_def)
  from r obtain wa where
    a: "cv_cluster_cutoff c ?pp exp_df meta_name n target_n
          (logger INFO (meta_name @ '' - entering probabilistic ALE routine.'')
             (save_inputs ?pp meta_name w)) = Inr wa"
    and w1: "w1 = cv_ale ?pp meta_name target_n wa"
    unfolding probabilistic_ale_def Let_def then_do_def by (auto split: sum.splits)
  have "files w1 chk = files w chk"
    unfolding w1 cv_ale_elsewhere [OF q4]
      cv_cluster_cutoff_elsewhere [OF a, folded chk_def] files_logger
      save_inputs_elsewhere [OF q5, simplified] ..
  then show ?thesis unfolding path_exists_def chk_def by simp
qed

end
